theory Spec2Isabelle
  imports Main "HOL-Library.Sublist"
begin

section \<open>Text: Python strings as lists of code points\<close>

text \<open>
  A Python \<open>str\<close> is a sequence of Unicode code points, so text is a list of
  natural numbers (\<open>len\<close> is \<open>length\<close>, \<open>x in s\<close> is \<open>sublist x s\<close>).
  \<open>asc\<close> turns an ASCII literal into such a list.

  The classification of the ASCII range is written out. Beyond it, whitespace is the
  fixed set of CPython's \<open>Py_UNICODE_ISSPACE\<close>; which code points are decimal
  digits (with their values), which are alphanumeric and how they lower-case is decided
  by the Unicode tables of the interpreter, which are not part of this repository: they
  are the parameter \<open>U\<close> of everything that needs them, and every theorem below holds
  for each such table.
\<close>

type_synonym str = "nat list"

definition asc :: "string \<Rightarrow> str" where
  "asc s = map of_char s"

record unicode =
  uni_alnum :: "nat \<Rightarrow> bool"
  uni_digit :: "nat \<Rightarrow> nat option"
  uni_lower :: "str \<Rightarrow> nat \<Rightarrow> str \<Rightarrow> str"

definition is_digit :: "unicode \<Rightarrow> nat \<Rightarrow> bool" where
  "is_digit U c = (if c < 128 then 48 \<le> c \<and> c \<le> 57 else uni_digit U c \<noteq> None)"

definition digit_val :: "unicode \<Rightarrow> nat \<Rightarrow> nat" where
  "digit_val U c =
     (if c < 128 then c - 48 else (case uni_digit U c of Some d \<Rightarrow> d | None \<Rightarrow> 0))"

definition is_word :: "unicode \<Rightarrow> nat \<Rightarrow> bool" where
  "is_word U c =
     (if c < 128
      then (48 \<le> c \<and> c \<le> 57) \<or> (65 \<le> c \<and> c \<le> 90) \<or> c = 95 \<or> (97 \<le> c \<and> c \<le> 122)
      else uni_alnum U c \<or> uni_digit U c \<noteq> None)"

definition is_space :: "nat \<Rightarrow> bool" where
  "is_space c =
     ((9 \<le> c \<and> c \<le> 13) \<or> (28 \<le> c \<and> c \<le> 32) \<or> c = 133 \<or> c = 160 \<or> c = 5760
      \<or> (8192 \<le> c \<and> c \<le> 8202) \<or> c = 8232 \<or> c = 8233 \<or> c = 8239 \<or> c = 8287
      \<or> c = 12288)"

text \<open>
  \<open>s.lower()\<close>: an ASCII capital becomes its small letter; what a code point beyond
  ASCII becomes is read from the tables, given the text before and after it (the
  lower-casing of a capital sigma depends on its neighbours).
\<close>

definition lower_char :: "unicode \<Rightarrow> str \<Rightarrow> nat \<Rightarrow> str \<Rightarrow> str" where
  "lower_char U before c after =
     (if c < 128 then (if 65 \<le> c \<and> c \<le> 90 then [c + 32] else [c])
      else uni_lower U before c after)"

fun lower_from :: "unicode \<Rightarrow> str \<Rightarrow> str \<Rightarrow> str" where
  "lower_from U before [] = []"
| "lower_from U before (c # after) =
     lower_char U before c after @ lower_from U (before @ [c]) after"

definition lower :: "unicode \<Rightarrow> str \<Rightarrow> str" where
  "lower U s = lower_from U [] s"

subsection \<open>The string methods the analyzers call\<close>

text \<open>
  \<open>s.split(sep)\<close> for a non-empty separator: the pieces between the occurrences of
  \<open>sep\<close>, found from the left and not overlapping; the result is never empty.
  \<open>limit\<close> is \<open>maxsplit\<close> (\<open>None\<close>: no limit).
\<close>

fun split_acc :: "str \<Rightarrow> nat option \<Rightarrow> str \<Rightarrow> str \<Rightarrow> str list" where
  "split_acc sep limit acc [] = [rev acc]"
| "split_acc sep limit acc (x # xs) =
     (if limit \<noteq> Some 0 \<and> prefix sep (x # xs)
      then rev acc # split_acc sep (map_option (\<lambda>n. n - 1) limit) [] (drop (length sep - 1) xs)
      else split_acc sep limit (x # acc) xs)"

definition split :: "str \<Rightarrow> str \<Rightarrow> str list" where
  "split sep s = split_acc sep None [] s"

definition split_max :: "str \<Rightarrow> nat \<Rightarrow> str \<Rightarrow> str list" where
  "split_max sep n s = split_acc sep (Some n) [] s"

text \<open>\<open>s.replace(old, '')\<close>: every occurrence of \<open>old\<close>, from the left, is removed.\<close>

definition remove_all :: "str \<Rightarrow> str \<Rightarrow> str" where
  "remove_all old s = concat (split old s)"


text \<open>\<open>s.strip()\<close> and \<open>s.split()\<close> (no argument: runs of whitespace separate).\<close>

definition strip :: "str \<Rightarrow> str" where
  "strip s = rev (dropWhile is_space (rev (dropWhile is_space s)))"



text \<open>\<open>s.endswith(x)\<close>.\<close>

definition endswith :: "str \<Rightarrow> str \<Rightarrow> bool" where
  "endswith s x = suffix x s"

section \<open>Regular expressions\<close>

text \<open>
  The patterns of the analyzers, as syntax trees, and a backtracking matcher that tries
  the alternatives in the order of Python's \<open>re\<close>: a greedy repetition the longest
  run first, a lazy one the shortest first, an optional part present before absent,
  the left branch of \<open>|\<close> before the right one.
  Every repetition in the source is over a single character class, so the tree has
  repetitions of classes only. \<open>Any\<close> is \<open>.\<close> under \<open>re.DOTALL\<close>.
\<close>

datatype cls = Word | Digit | Space | Any | OneOf str | Range nat nat | Union cls cls

fun in_cls :: "unicode \<Rightarrow> cls \<Rightarrow> nat \<Rightarrow> bool" where
  "in_cls U Word c = is_word U c"
| "in_cls U Digit c = is_digit U c"
| "in_cls U Space c = is_space c"
| "in_cls U Any c = True"
| "in_cls U (OneOf cs) c = (c \<in> set cs)"
| "in_cls U (Range a b) c = (a \<le> c \<and> c \<le> b)"
| "in_cls U (Union k l) c = (in_cls U k c \<or> in_cls U l c)"

datatype re =
    Lit str
  | One cls
  | Plus cls
  | LazyStar cls
  | Rep nat cls
  | Opt re
  | Alt re re
  | Grp nat re
  | Seq "re list"
  | Bos
  | Eos

text \<open>
  A matcher state: the position in the subject, the text from there on, and the groups
  captured so far (the latest binding of a group first).
\<close>

type_synonym caps = "(nat \<times> str) list"
type_synonym mstate = "nat \<times> str \<times> caps"

fun greedy_star :: "(nat \<Rightarrow> bool) \<Rightarrow> nat \<Rightarrow> str \<Rightarrow> caps \<Rightarrow> mstate list" where
  "greedy_star p i [] c = [(i, [], c)]"
| "greedy_star p i (x # xs) c =
     (if p x then greedy_star p (Suc i) xs c else []) @ [(i, x # xs, c)]"

fun lazy_star :: "(nat \<Rightarrow> bool) \<Rightarrow> nat \<Rightarrow> str \<Rightarrow> caps \<Rightarrow> mstate list" where
  "lazy_star p i [] c = [(i, [], c)]"
| "lazy_star p i (x # xs) c =
     (i, x # xs, c) # (if p x then lazy_star p (Suc i) xs c else [])"

fun run :: "unicode \<Rightarrow> re \<Rightarrow> mstate \<Rightarrow> mstate list"
  and run_seq :: "unicode \<Rightarrow> re list \<Rightarrow> mstate \<Rightarrow> mstate list" where
  "run U (Lit l) (i, s, c) =
     (if prefix l s then [(i + length l, drop (length l) s, c)] else [])"
| "run U (One k) (i, s, c) =
     (case s of [] \<Rightarrow> [] | x # xs \<Rightarrow> if in_cls U k x then [(Suc i, xs, c)] else [])"
| "run U (Plus k) (i, s, c) =
     (case s of [] \<Rightarrow> []
      | x # xs \<Rightarrow> if in_cls U k x then greedy_star (in_cls U k) (Suc i) xs c else [])"
| "run U (LazyStar k) (i, s, c) = lazy_star (in_cls U k) i s c"
| "run U (Rep n k) (i, s, c) =
     (if n \<le> length s \<and> list_all (in_cls U k) (take n s) then [(i + n, drop n s, c)] else [])"
| "run U (Opt r) st = run U r st @ [st]"
| "run U (Alt r r') st = run U r st @ run U r' st"
| "run U (Grp g r) (i, s, c) =
     map (\<lambda>(j, s', c'). (j, s', (g, take (j - i) s) # c')) (run U r (i, s, c))"
| "run U (Seq rs) st = run_seq U rs st"
| "run U Bos (i, s, c) = (if i = 0 then [(i, s, c)] else [])"
| "run U Eos (i, s, c) = (if s = [] \<or> s = [10] then [(i, s, c)] else [])"
| "run_seq U [] st = [st]"
| "run_seq U (r # rs) st = concat (map (run_seq U rs) (run U r st))"

text \<open>\<open>re.match\<close>: the first way to match at the start of the subject, if any.\<close>

definition re_match :: "unicode \<Rightarrow> re \<Rightarrow> str \<Rightarrow> caps option" where
  "re_match U r s = (case run U r (0, s, []) of [] \<Rightarrow> None | (j, s', c) # _ \<Rightarrow> Some c)"

text \<open>\<open>re.search\<close>: the first match at the leftmost position that has one.\<close>

fun search_from :: "unicode \<Rightarrow> re \<Rightarrow> nat \<Rightarrow> str \<Rightarrow> caps option" where
  "search_from U r i [] = (case run U r (i, [], []) of [] \<Rightarrow> None | (j, s', c) # _ \<Rightarrow> Some c)"
| "search_from U r i (x # xs) =
     (case run U r (i, x # xs, []) of
        [] \<Rightarrow> search_from U r (Suc i) xs
      | (j, s', c) # _ \<Rightarrow> Some c)"

definition re_search :: "unicode \<Rightarrow> re \<Rightarrow> str \<Rightarrow> caps option" where
  "re_search U r s = search_from U r 0 s"

text \<open>
  \<open>re.findall\<close>: the matches from left to right, each search starting where the match
  before it ended. \<open>k\<close> counts the characters of the last match still to be passed.
\<close>

fun findall_from :: "unicode \<Rightarrow> re \<Rightarrow> nat \<Rightarrow> nat \<Rightarrow> str \<Rightarrow> caps list" where
  "findall_from U r i k [] =
     (if k = 0 then (case run U r (i, [], []) of [] \<Rightarrow> [] | (j, s', c) # _ \<Rightarrow> [c]) else [])"
| "findall_from U r i k (x # xs) =
     (if 0 < k then findall_from U r (Suc i) (k - 1) xs
      else (case run U r (i, x # xs, []) of
              [] \<Rightarrow> findall_from U r (Suc i) 0 xs
            | (j, s', c) # _ \<Rightarrow> c # findall_from U r (Suc i) (j - i - 1) xs))"

definition findall :: "unicode \<Rightarrow> re \<Rightarrow> str \<Rightarrow> caps list" where
  "findall U r s = findall_from U r 0 0 s"

text \<open>\<open>m.group(g)\<close>: \<open>None\<close> when the group took no part in the match.\<close>

definition group :: "caps \<Rightarrow> nat \<Rightarrow> str option" where
  "group c g = map_of c g"

section \<open>Numbers\<close>

text \<open>
  Python's \<open>int\<close> is \<open>int\<close>. A \<open>float\<close> is an IEEE 754 double: \<open>Fin m e\<close>
  is the finite value \<open>m * 2 ^ e\<close>, kept canonical (\<open>m\<close> odd, or \<open>Fin 0 0\<close> for
  zero, whose sign is not kept: \<open>-0.0 == 0.0\<close> in Python), so that two finite
  floats are the same value exactly when they are the same term. Every operation rounds
  the exact result to the nearest double, ties to even, with gradual underflow and
  overflow to infinity; \<open>round_q n d\<close> is that rounding of the fraction \<open>n / d\<close>
  for \<open>0 < d\<close>.
\<close>

datatype pyfloat = Fin int int | PInf | NInf | NaN

fun bit_length :: "nat \<Rightarrow> nat" where
  "bit_length n = (if n = 0 then 0 else Suc (bit_length (n div 2)))"

declare bit_length.simps [simp del]

function canon :: "int \<Rightarrow> int \<Rightarrow> pyfloat" where
  "canon m e =
     (if m = 0 then Fin 0 0 else if even m then canon (m div 2) (e + 1) else Fin m e)"
  by pat_completeness auto
termination
  by (relation "measure (\<lambda>(m, e). nat \<bar>m\<bar>)") auto

declare canon.simps [simp del]

definition round_even :: "int \<Rightarrow> int \<Rightarrow> int" where
  "round_even n d =
     (let q = n div d; r = n mod d
      in if 2 * r < d then q else if d < 2 * r then q + 1 else if even q then q else q + 1)"

text \<open>\<open>scale n d e\<close> is the fraction \<open>n / d * 2 ^ e\<close>.\<close>

definition scale :: "int \<Rightarrow> int \<Rightarrow> int \<Rightarrow> int \<times> int" where
  "scale n d e = (if 0 \<le> e then (n * 2 ^ nat e, d) else (n, d * 2 ^ nat (- e)))"

text \<open>For \<open>0 < n\<close>: the \<open>k\<close> with \<open>2 ^ k \<le> n / d < 2 ^ (k + 1)\<close>.\<close>

definition binade :: "int \<Rightarrow> int \<Rightarrow> int" where
  "binade n d =
     (let k = int (bit_length (nat n)) - int (bit_length (nat d))
      in case scale n d (- k) of (a, b) \<Rightarrow> if b \<le> a then k else k - 1)"

definition round_pos :: "int \<Rightarrow> int \<Rightarrow> (int \<times> int) option" where
  "round_pos n d =
     (let e = max (binade n d) (- 1022)
      in case scale n d (52 - e) of (a, b) \<Rightarrow>
           (let m = round_even a b
            in if 1023 < e \<or> (e = 1023 \<and> 2 ^ 53 \<le> m) then None else Some (m, e - 52)))"

definition round_q :: "int \<Rightarrow> int \<Rightarrow> pyfloat" where
  "round_q n d =
     (if n = 0 then Fin 0 0
      else if 0 < n then (case round_pos n d of None \<Rightarrow> PInf | Some (m, e) \<Rightarrow> canon m e)
      else (case round_pos (- n) d of None \<Rightarrow> NInf | Some (m, e) \<Rightarrow> canon (- m) e))"

text \<open>The sign of a float: \<open>-1\<close>, \<open>0\<close> or \<open>1\<close> (\<open>NaN\<close> is handled before it is asked).\<close>

fun fsign :: "pyfloat \<Rightarrow> int" where
  "fsign (Fin m e) = sgn m"
| "fsign PInf = 1"
| "fsign NInf = - 1"
| "fsign NaN = 0"

definition inf_of :: "int \<Rightarrow> pyfloat" where
  "inf_of s = (if 0 < s then PInf else if s < 0 then NInf else NaN)"

fun fneg :: "pyfloat \<Rightarrow> pyfloat" where
  "fneg (Fin m e) = Fin (- m) e"
| "fneg PInf = NInf"
| "fneg NInf = PInf"
| "fneg NaN = NaN"

fun fadd :: "pyfloat \<Rightarrow> pyfloat \<Rightarrow> pyfloat" where
  "fadd (Fin a p) (Fin b q) =
     (let e = min p q
      in case scale (a * 2 ^ nat (p - e) + b * 2 ^ nat (q - e)) 1 e of (n, d) \<Rightarrow> round_q n d)"
| "fadd NaN y = NaN"
| "fadd x NaN = NaN"
| "fadd PInf NInf = NaN"
| "fadd NInf PInf = NaN"
| "fadd PInf y = PInf"
| "fadd NInf y = NInf"
| "fadd x PInf = PInf"
| "fadd x NInf = NInf"

definition fsub :: "pyfloat \<Rightarrow> pyfloat \<Rightarrow> pyfloat" where
  "fsub x y = fadd x (fneg y)"

fun fmul :: "pyfloat \<Rightarrow> pyfloat \<Rightarrow> pyfloat" where
  "fmul (Fin a p) (Fin b q) = (case scale (a * b) 1 (p + q) of (n, d) \<Rightarrow> round_q n d)"
| "fmul NaN y = NaN"
| "fmul x NaN = NaN"
| "fmul x y = inf_of (fsign x * fsign y)"

datatype error =
    ValueError | TypeError | AttributeError | IndexError | OverflowError
  | ZeroDivisionError | OSError | UnicodeDecodeError | JSONDecodeError | RecursionError

text \<open>
  A step that can raise returns \<open>Inl\<close> the error; \<open>ebind\<close> runs the next step on
  the value of a step that did not raise, and \<open>need e\<close> raises \<open>e\<close> on \<open>None\<close>.
\<close>

definition ebind :: "error + 'a \<Rightarrow> ('a \<Rightarrow> error + 'b) \<Rightarrow> error + 'b" where
  "ebind x f = (case x of Inl e \<Rightarrow> Inl e | Inr v \<Rightarrow> f v)"

definition need :: "error \<Rightarrow> 'a option \<Rightarrow> error + 'a" where
  "need e x = (case x of None \<Rightarrow> Inl e | Some v \<Rightarrow> Inr v)"

text \<open>\<open>x / y\<close> on floats: Python raises on a zero divisor.\<close>

fun fdiv :: "pyfloat \<Rightarrow> pyfloat \<Rightarrow> error + pyfloat" where
  "fdiv x (Fin b q) =
     (if b = 0 then Inl ZeroDivisionError
      else (case x of
              Fin a p \<Rightarrow>
                Inr (case scale (a * sgn b) \<bar>b\<bar> (p - q) of (n, d) \<Rightarrow> round_q n d)
            | NaN \<Rightarrow> Inr NaN
            | _ \<Rightarrow> Inr (inf_of (fsign x * sgn b))))"
| "fdiv NaN y = Inr NaN"
| "fdiv x NaN = Inr NaN"
| "fdiv (Fin a p) y = Inr (Fin 0 0)"
| "fdiv x y = Inr NaN"

text \<open>\<open>float(n)\<close> for an \<open>int\<close>: too large a number raises.\<close>

definition float_of_int :: "int \<Rightarrow> error + pyfloat" where
  "float_of_int n =
     (case round_q n 1 of PInf \<Rightarrow> Inl OverflowError | NInf \<Rightarrow> Inl OverflowError | x \<Rightarrow> Inr x)"

subsection \<open>Reading numbers from text\<close>

text \<open>
  \<open>int(s)\<close> and \<open>float(s)\<close> on what the patterns of the analyzers let through: a
  string of decimal digits for \<open>int\<close>, of decimal digits and dots for \<open>float\<close>.
  Any other string is \<open>ValueError\<close> here (Python's \<open>int\<close> and \<open>float\<close> also read
  signs, underscores, exponents and surrounding whitespace, which no pattern passes on).
  \<open>int\<close> refuses a string of more digits than \<open>sys.get_int_max_str_digits()\<close>,
  4300 unless the interpreter is configured otherwise, which nothing in the repository
  does; leading zeros count. \<open>float\<close> has no such limit.
\<close>

definition max_str_digits :: nat where
  "max_str_digits = 4300"

definition digits_val :: "unicode \<Rightarrow> str \<Rightarrow> int" where
  "digits_val U s = int (foldl (\<lambda>a c. 10 * a + digit_val U c) 0 s)"

definition py_int :: "unicode \<Rightarrow> str \<Rightarrow> error + int" where
  "py_int U s =
     (if s \<noteq> [] \<and> list_all (is_digit U) s \<and> length s \<le> max_str_digits
      then Inr (digits_val U s) else Inl ValueError)"

definition py_float :: "unicode \<Rightarrow> str \<Rightarrow> error + pyfloat" where
  "py_float U s =
     (case split [46] s of
        [ip] \<Rightarrow>
          if ip \<noteq> [] \<and> list_all (is_digit U) ip then Inr (round_q (digits_val U ip) 1)
          else Inl ValueError
      | [ip, fp] \<Rightarrow>
          if (ip \<noteq> [] \<or> fp \<noteq> []) \<and> list_all (is_digit U) (ip @ fp)
          then Inr (round_q (digits_val U (ip @ fp)) (10 ^ length fp))
          else Inl ValueError
      | _ \<Rightarrow> Inl ValueError)"

section \<open>Dictionaries with insertion order\<close>

text \<open>
  A Python \<open>dict\<close> whose keys are computed is an association list with distinct keys in
  insertion order: \<open>d[k] = v\<close> replaces the value of a key that is there and appends a
  new key; \<open>d.update(e)\<close> does so for each item of \<open>e\<close>.
\<close>

fun dict_set :: "('k \<times> 'v) list \<Rightarrow> 'k \<Rightarrow> 'v \<Rightarrow> ('k \<times> 'v) list" where
  "dict_set [] k v = [(k, v)]"
| "dict_set ((k', v') # d) k v = (if k' = k then (k, v) # d else (k', v') # dict_set d k v)"

definition dict_update :: "('k \<times> 'v) list \<Rightarrow> ('k \<times> 'v) list \<Rightarrow> ('k \<times> 'v) list" where
  "dict_update d e = foldl (\<lambda>d (k, v). dict_set d k v) d e"

definition dict_get :: "('k \<times> 'v) list \<Rightarrow> 'k \<Rightarrow> 'v option" where
  "dict_get d k = map_of d k"

section \<open>The benchmark analyzer\<close>

text \<open>
  \<^verbatim>\<open>^(Benchmark\w+)(?:-(\d+))?\s+(\d+)\s+(\d+(?:\.\d+)?) ns/op(?:\s+(\d+) B/op)?(?:\s+(\d+) allocs/op)?$\<close>
\<close>

definition benchmark_pattern :: re where
  "benchmark_pattern =
     Seq [Bos,
          Grp 1 (Seq [Lit (asc ''Benchmark''), Plus Word]),
          Opt (Seq [Lit (asc ''-''), Grp 2 (Plus Digit)]),
          Plus Space,
          Grp 3 (Plus Digit),
          Plus Space,
          Grp 4 (Seq [Plus Digit, Opt (Seq [Lit (asc ''.''), Plus Digit])]),
          Lit (asc '' ns/op''),
          Opt (Seq [Plus Space, Grp 5 (Plus Digit), Lit (asc '' B/op'')]),
          Opt (Seq [Plus Space, Grp 6 (Plus Digit), Lit (asc '' allocs/op'')]),
          Eos]"

text \<open>The values of a result row: strings, integers and floats.\<close>

datatype pyval = S str | I int | F pyfloat

type_synonym brow = "(str \<times> pyval) list"

text \<open>
  The loop over \<open>name_parts[1:]\<close>: a part with \<open>=\<close> is split at the first \<open>=\<close>
  and stored.
\<close>

fun extract_params :: "str list \<Rightarrow> (str \<times> pyval) list \<Rightarrow> error + (str \<times> pyval) list" where
  "extract_params [] params = Inr params"
| "extract_params (part # parts) params =
     (if sublist (asc ''='') part
      then (case split_max (asc ''='') 1 part of
              [key, val] \<Rightarrow> extract_params parts (dict_set params key (S val))
            | _ \<Rightarrow> Inl ValueError)
      else extract_params parts params)"

text \<open>\<open>int(g) if g else d\<close> for a group that may have taken no part.\<close>

definition int_or :: "unicode \<Rightarrow> str option \<Rightarrow> int \<Rightarrow> error + int" where
  "int_or U g d = (case g of None \<Rightarrow> Inr d | Some s \<Rightarrow> if s = [] then Inr d else py_int U s)"

text \<open>The body of the loop for a line that matched, from the groups of the match.\<close>

definition benchmark_record :: "unicode \<Rightarrow> caps \<Rightarrow> error + brow" where
  "benchmark_record U m =
     ebind (need AttributeError (group m 1)) (\<lambda>name.
       case split (asc ''/'') name of
         [] \<Rightarrow> Inl IndexError
       | base_name # parts \<Rightarrow>
           ebind (extract_params parts []) (\<lambda>params.
           ebind (int_or U (group m 2) 1) (\<lambda>procs.
           ebind (ebind (need TypeError (group m 3)) (py_int U)) (\<lambda>iterations.
           ebind (ebind (need TypeError (group m 4)) (py_float U)) (\<lambda>ns_per_op.
           ebind (int_or U (group m 5) 0) (\<lambda>bytes_per_op.
           ebind (int_or U (group m 6) 0) (\<lambda>allocs_per_op.
             Inr (dict_update
                   [(asc ''name'', S base_name),
                    (asc ''full_name'', S name),
                    (asc ''procs'', I procs),
                    (asc ''iterations'', I iterations),
                    (asc ''ns_per_op'', F ns_per_op),
                    (asc ''bytes_per_op'', I bytes_per_op),
                    (asc ''allocs_per_op'', I allocs_per_op)]
                   params))))))))"

text \<open>The loop over the lines of the file, \<open>results\<close> being the list built so far.\<close>

fun benchmark_lines :: "unicode \<Rightarrow> str list \<Rightarrow> brow list \<Rightarrow> error + brow list" where
  "benchmark_lines U [] results = Inr results"
| "benchmark_lines U (line # ls) results =
     (case re_match U benchmark_pattern line of
        None \<Rightarrow> benchmark_lines U ls results
      | Some m \<Rightarrow>
          (case benchmark_record U m of
             Inl e \<Rightarrow> Inl e
           | Inr result \<Rightarrow> benchmark_lines U ls (results @ [result])))"

definition parse_benchmark_content :: "unicode \<Rightarrow> str \<Rightarrow> error + brow list" where
  "parse_benchmark_content U content = benchmark_lines U (split [10] content) []"

text \<open>
  An analyzer object: the fields the methods below read or write (the output
  directories are created by the constructor and only used for reports).
\<close>

record 'r analyzer =
  input_dir :: str
  output_dir :: str
  results :: "'r list option"

text \<open>
  The file system, as far as the analyzers see it: \<open>fs path\<close> is the text that
  \<open>open(path).read()\<close> returns, or the error it raises (\<open>OSError\<close> for a file
  that cannot be opened, \<open>UnicodeDecodeError\<close> for bytes that are not text).
\<close>

type_synonym filesystem = "str \<Rightarrow> error + str"

text \<open>\<open>os.path.join(dir, name)\<close> for a relative \<open>name\<close>.\<close>

definition path_join :: "str \<Rightarrow> str \<Rightarrow> str" where
  "path_join d name = (if d = [] \<or> endswith d (asc ''/'') then d @ name else d @ asc ''/'' @ name)"

text \<open>\<open>parse_benchmark_file(self, filename)\<close>: the object is neither read nor changed.\<close>

definition parse_benchmark_file ::
  "unicode \<Rightarrow> filesystem \<Rightarrow> 'r analyzer \<Rightarrow> str \<Rightarrow> 'r analyzer \<times> (error + brow list)" where
  "parse_benchmark_file U fs self filename =
     (self, case fs filename of Inl e \<Rightarrow> Inl e
            | Inr content \<Rightarrow> parse_benchmark_content U content)"

text \<open>
  A row of a loaded data set: the parsed row and the columns added from the file name.
  \<open>pd.to_datetime(s, format='%Y%m%d')\<close> belongs to pandas and is the parameter
  \<open>to_datetime\<close> (\<open>None\<close>: it raises).
\<close>

record ('r, 'd) loaded =
  parsed :: 'r
  date :: 'd
  source_file :: str

record ('r, 'd) bloaded = "('r, 'd) loaded" +
  test_type :: str

text \<open>\<^verbatim>\<open>(\w+)_(\d{8})\.txt\<close>\<close>

definition benchmark_file_pattern :: re where
  "benchmark_file_pattern =
     Seq [Grp 1 (Plus Word), Lit (asc ''_''), Grp 2 (Rep 8 Digit), Lit (asc ''.txt'')]"

definition benchmark_metadata :: "unicode \<Rightarrow> str \<Rightarrow> str \<times> str" where
  "benchmark_metadata U filename =
     (case re_search U benchmark_file_pattern filename of
        None \<Rightarrow> (asc ''unknown'', asc ''00000000'')
      | Some m \<Rightarrow>
          (case (group m 1, group m 2) of
             (Some ttype, Some date_str) \<Rightarrow> (ttype, date_str)
           | _ \<Rightarrow> (asc ''unknown'', asc ''00000000'')))"

text \<open>
  The body of the loop of \<open>load_benchmark_results\<close> for a file that passed the
  filters: the parsed rows with the columns taken from the file name.
\<close>

definition benchmark_frame ::
  "unicode \<Rightarrow> (str \<Rightarrow> 'd option) \<Rightarrow> filesystem \<Rightarrow> 'r analyzer \<Rightarrow> str \<Rightarrow>
   error + (brow, 'd) bloaded list" where
  "benchmark_frame U to_datetime fs self filename =
     (case benchmark_metadata U filename of (ttype, date_str) \<Rightarrow>
        ebind (snd (parse_benchmark_file U fs self (path_join (input_dir self) filename))) (\<lambda>df.
        ebind (need ValueError (to_datetime date_str)) (\<lambda>d.
          Inr (map (\<lambda>r. \<lparr>parsed = r, date = d, source_file = filename, test_type = ttype\<rparr>) df))))"

text \<open>
  The loop over \<open>os.listdir(self.input_dir)\<close>, given as the list \<open>names\<close>;
  \<open>pattern\<close> is the optional file filter (\<open>re.search\<close> of the caller's pattern,
  \<open>None\<close> when no pattern is given). Nothing is caught here: the first file that
  cannot be read or dated ends the loop with its error.
\<close>

fun benchmark_files ::
  "unicode \<Rightarrow> (str \<Rightarrow> 'd option) \<Rightarrow> filesystem \<Rightarrow> 'r analyzer \<Rightarrow> (str \<Rightarrow> bool) option \<Rightarrow>
   str list \<Rightarrow> (brow, 'd) bloaded list list \<Rightarrow> error + (brow, 'd) bloaded list list" where
  "benchmark_files U to_datetime fs self pattern [] all_results = Inr all_results"
| "benchmark_files U to_datetime fs self pattern (filename # names) all_results =
     (if \<not> endswith filename (asc ''.txt'')
      then benchmark_files U to_datetime fs self pattern names all_results
      else if (case pattern of None \<Rightarrow> False | Some p \<Rightarrow> \<not> p filename)
      then benchmark_files U to_datetime fs self pattern names all_results
      else ebind (benchmark_frame U to_datetime fs self filename) (\<lambda>df.
             benchmark_files U to_datetime fs self pattern names (all_results @ [df])))"

definition load_benchmark_results ::
  "unicode \<Rightarrow> (str \<Rightarrow> 'd option) \<Rightarrow> filesystem \<Rightarrow> str list \<Rightarrow> (brow, 'd) bloaded analyzer \<Rightarrow>
   (str \<Rightarrow> bool) option \<Rightarrow> (brow, 'd) bloaded analyzer \<times> (error + (brow, 'd) bloaded list)" where
  "load_benchmark_results U to_datetime fs names self pattern =
     (case benchmark_files U to_datetime fs self pattern names [] of
        Inl e \<Rightarrow> (self, Inl e)
      | Inr all_results \<Rightarrow>
          if all_results = [] then (self, Inl ValueError)
          else (self\<lparr>results := Some (concat all_results)\<rparr>, Inr (concat all_results)))"

section \<open>The hit ratio analyzer\<close>

text \<open>The labels of a statistics block, as code points.\<close>

definition label_result :: str where "label_result = [27979, 35797, 32467, 26524]"
definition label_total :: str where "label_total = [24635, 25805, 20316, 25968]"
definition label_hits :: str where "label_hits = [21629, 20013, 25968]"
definition label_misses :: str where "label_misses = [26410, 21629, 20013, 25968]"
definition label_hit_ratio :: str where "label_hit_ratio = [21629, 20013, 29575]"
definition label_evictions :: str where "label_evictions = [28120, 27760, 25968]"
definition label_eviction_ratio :: str where "label_eviction_ratio = [28120, 27760, 27604, 29575]"
definition label_duration :: str where "label_duration = [25345, 32493, 26102, 38388]"

text \<open>The micro sign (U+00B5) of \<open>\<mu>s\<close>.\<close>

definition micro :: nat where "micro = 181"

text \<open>
  \<open>hitratio_pattern\<close>, matched with \<open>re.DOTALL\<close>: the labels in their order, any text
  between them (as little as possible), and after each label whitespace and the value:
  \<^verbatim>\<open>L0:.*?L1:\s+(\d+).*?L2:\s+(\d+).*?L3:\s+(\d+).*?L4:\s+([\d.]+)%.*?L5:\s+(\d+).*?L6:\s+([\d.]+)%.*?L7:\s+([0-9.]+[Unm]?s)\<close>
  where \<open>L0\<close> to \<open>L7\<close> are the labels above and \<open>U\<close> is the micro sign.
\<close>

definition hitratio_pattern :: re where
  "hitratio_pattern =
     Seq [Lit (label_result @ asc '':''), LazyStar Any,
          Lit (label_total @ asc '':''), Plus Space, Grp 1 (Plus Digit), LazyStar Any,
          Lit (label_hits @ asc '':''), Plus Space, Grp 2 (Plus Digit), LazyStar Any,
          Lit (label_misses @ asc '':''), Plus Space, Grp 3 (Plus Digit), LazyStar Any,
          Lit (label_hit_ratio @ asc '':''), Plus Space,
          Grp 4 (Plus (Union Digit (OneOf (asc ''.'')))), Lit (asc ''%''), LazyStar Any,
          Lit (label_evictions @ asc '':''), Plus Space, Grp 5 (Plus Digit), LazyStar Any,
          Lit (label_eviction_ratio @ asc '':''), Plus Space,
          Grp 6 (Plus (Union Digit (OneOf (asc ''.'')))), Lit (asc ''%''), LazyStar Any,
          Lit (label_duration @ asc '':''), Plus Space,
          Grp 7 (Seq [Plus (Union (Range 48 57) (OneOf (asc ''.''))),
                      Opt (One (OneOf [micro, 110, 109])),
                      Lit (asc ''s'')])]"

text \<open>\<^verbatim>\<open>Test(\w+)\<close> and \<^verbatim>\<open>Size(\d+)\<close>\<close>

definition test_name_pattern :: re where
  "test_name_pattern = Seq [Lit (asc ''Test''), Grp 1 (Plus Word)]"

definition size_pattern :: re where
  "size_pattern = Seq [Lit (asc ''Size''), Grp 1 (Plus Digit)]"

text \<open>\<open>str(n)\<close> for an \<open>int\<close>.\<close>

fun digits_of :: "nat \<Rightarrow> str" where
  "digits_of n = (if n < 10 then [48 + n] else digits_of (n div 10) @ [48 + n mod 10])"

declare digits_of.simps [simp del]

definition str_of_int :: "int \<Rightarrow> str" where
  "str_of_int n = (if n < 0 then asc ''-'' @ digits_of (nat (- n)) else digits_of (nat n))"

record hrow =
  test_name :: "str option"
  cache_size :: "int option"
  distribution :: "str option"
  policy :: "str option"
  total_operations :: int
  hits :: int
  misses :: int
  hit_ratio :: pyfloat
  evictions :: int
  eviction_ratio :: pyfloat
  duration_ms :: pyval

text \<open>
  The text in which the parameters of a block are looked up: what comes before the
  first occurrence of the total-operations label, a colon, one space and the number, in
  the whole file, and of that what follows the last \<open>=== RUN\<close>.
\<close>

definition test_context :: "str \<Rightarrow> int \<Rightarrow> str" where
  "test_context content total_ops =
     (let context_before = hd (split (label_total @ asc '': '' @ str_of_int total_ops) content)
      in last (split (asc ''=== RUN'') context_before))"

definition find_test_name :: "unicode \<Rightarrow> str \<Rightarrow> str option" where
  "find_test_name U ctx =
     (case re_search U test_name_pattern ctx of None \<Rightarrow> None | Some m \<Rightarrow> group m 1)"

definition find_distribution :: "str \<Rightarrow> str option" where
  "find_distribution ctx =
     (if sublist (asc ''ZipfLow'') ctx then Some (asc ''zipf-1.07'')
      else if sublist (asc ''ZipfHigh'') ctx then Some (asc ''zipf-1.2'')
      else if sublist (asc ''Uniform'') ctx then Some (asc ''uniform'')
      else None)"

definition find_policy :: "str \<Rightarrow> str option" where
  "find_policy ctx =
     (if sublist (asc ''LRU'') ctx then Some (asc ''lru'')
      else if sublist (asc ''LFU'') ctx then Some (asc ''lfu'')
      else if sublist (asc ''FIFO'') ctx then Some (asc ''fifo'')
      else if sublist (asc ''Random'') ctx then Some (asc ''random'')
      else None)"

definition find_cache_size :: "unicode \<Rightarrow> str \<Rightarrow> error + int option" where
  "find_cache_size U ctx =
     (case re_search U size_pattern ctx of
        Some m \<Rightarrow> ebind (ebind (need TypeError (group m 1)) (py_int U)) (\<lambda>n. Inr (Some n))
      | None \<Rightarrow>
          if sublist (asc ''small'') (lower U ctx) then Inr (Some 1000)
          else if sublist (asc ''large'') (lower U ctx) then Inr (Some 100000)
          else Inr (Some 10000))"

text \<open>\<open>x / n\<close> and \<open>x * n\<close> for a float \<open>x\<close> and an \<open>int\<close> literal \<open>n\<close>.\<close>

definition fdiv_int :: "pyfloat \<Rightarrow> int \<Rightarrow> error + pyfloat" where
  "fdiv_int x n = ebind (float_of_int n) (fdiv x)"

definition fmul_int :: "pyfloat \<Rightarrow> int \<Rightarrow> error + pyfloat" where
  "fmul_int x n = ebind (float_of_int n) (\<lambda>y. Inr (fmul x y))"

text \<open>The duration in milliseconds: \<open>0\<close> unless one of the four units is found.\<close>

definition parse_duration :: "unicode \<Rightarrow> str \<Rightarrow> error + pyval" where
  "parse_duration U duration_str =
     (if sublist [micro, 115] duration_str
      then ebind (py_float U (remove_all [micro, 115] duration_str)) (\<lambda>x.
           ebind (fdiv_int x 1000) (\<lambda>y. Inr (F y)))
      else if sublist (asc ''ns'') duration_str
      then ebind (py_float U (remove_all (asc ''ns'') duration_str)) (\<lambda>x.
           ebind (fdiv_int x 1000000) (\<lambda>y. Inr (F y)))
      else if sublist (asc ''ms'') duration_str
      then ebind (py_float U (remove_all (asc ''ms'') duration_str)) (\<lambda>x. Inr (F x))
      else if sublist (asc ''s'') duration_str
      then ebind (py_float U (remove_all (asc ''s'') duration_str)) (\<lambda>x.
           ebind (fmul_int x 1000) (\<lambda>y. Inr (F y)))
      else Inr (I 0))"

text \<open>
  The body of the loop over the matches of \<open>hitratio_pattern\<close>: \<open>m\<close> holds the seven
  groups of one match.
\<close>

definition hitratio_record :: "unicode \<Rightarrow> str \<Rightarrow> caps \<Rightarrow> error + hrow" where
  "hitratio_record U content m =
     ebind (ebind (need TypeError (group m 1)) (py_int U)) (\<lambda>total_ops.
     ebind (ebind (need TypeError (group m 2)) (py_int U)) (\<lambda>hits.
     ebind (ebind (need TypeError (group m 3)) (py_int U)) (\<lambda>misses.
     ebind (ebind (need TypeError (group m 4)) (py_float U)) (\<lambda>hit_ratio.
     ebind (ebind (need TypeError (group m 5)) (py_int U)) (\<lambda>evictions.
     ebind (ebind (need TypeError (group m 6)) (py_float U)) (\<lambda>eviction_ratio.
     ebind (need TypeError (group m 7)) (\<lambda>duration_str.
       let ctx = test_context content total_ops
       in ebind (find_cache_size U ctx) (\<lambda>cache_size.
          ebind (parse_duration U duration_str) (\<lambda>duration_ms.
            Inr \<lparr>test_name = find_test_name U ctx,
                 cache_size = cache_size,
                 distribution = find_distribution ctx,
                 policy = find_policy ctx,
                 total_operations = total_ops,
                 hits = hits,
                 misses = misses,
                 hit_ratio = hit_ratio,
                 evictions = evictions,
                 eviction_ratio = eviction_ratio,
                 duration_ms = duration_ms\<rparr>)))))))))"

fun hitratio_matches :: "unicode \<Rightarrow> str \<Rightarrow> caps list \<Rightarrow> hrow list \<Rightarrow> error + hrow list" where
  "hitratio_matches U content [] parsed_results = Inr parsed_results"
| "hitratio_matches U content (m # ms) parsed_results =
     ebind (hitratio_record U content m) (\<lambda>result.
       hitratio_matches U content ms (parsed_results @ [result]))"

definition parse_test_content :: "unicode \<Rightarrow> str \<Rightarrow> error + hrow list" where
  "parse_test_content U content =
     hitratio_matches U content (findall U hitratio_pattern content) []"

definition parse_test_output ::
  "unicode \<Rightarrow> filesystem \<Rightarrow> 'r analyzer \<Rightarrow> str \<Rightarrow> 'r analyzer \<times> (error + hrow list)" where
  "parse_test_output U fs self filename =
     (self, case fs filename of Inl e \<Rightarrow> Inl e
            | Inr content \<Rightarrow> parse_test_content U content)"

text \<open>\<^verbatim>\<open>hitratio_(\d{8})\.(?:txt|log)\<close>\<close>

definition hitratio_file_pattern :: re where
  "hitratio_file_pattern =
     Seq [Lit (asc ''hitratio_''), Grp 1 (Rep 8 Digit), Lit (asc ''.''),
          Alt (Lit (asc ''txt'')) (Lit (asc ''log''))]"

definition hitratio_date :: "unicode \<Rightarrow> str \<Rightarrow> str" where
  "hitratio_date U filename =
     (case re_search U hitratio_file_pattern filename of
        None \<Rightarrow> asc ''00000000''
      | Some m \<Rightarrow> (case group m 1 of Some d \<Rightarrow> d | None \<Rightarrow> asc ''00000000''))"

text \<open>
  The body of the \<open>try\<close> in the loop of \<open>load_test_results\<close>: the parsed rows
  with the date and the file name.
\<close>

definition hitratio_frame ::
  "unicode \<Rightarrow> (str \<Rightarrow> 'd option) \<Rightarrow> filesystem \<Rightarrow> 'r analyzer \<Rightarrow> str \<Rightarrow>
   error + (hrow, 'd) loaded list" where
  "hitratio_frame U to_datetime fs self filename =
     ebind (snd (parse_test_output U fs self (path_join (input_dir self) filename))) (\<lambda>df.
     ebind (need ValueError (to_datetime (hitratio_date U filename))) (\<lambda>d.
       Inr (map (\<lambda>r. \<lparr>parsed = r, date = d, source_file = filename\<rparr>) df)))"

text \<open>
  The loop. Whatever a file raises inside the \<open>try\<close> is caught: the file adds nothing
  to \<open>all_results\<close> and the loop goes on.
\<close>

fun hitratio_files ::
  "unicode \<Rightarrow> (str \<Rightarrow> 'd option) \<Rightarrow> filesystem \<Rightarrow> 'r analyzer \<Rightarrow> (str \<Rightarrow> bool) option \<Rightarrow>
   str list \<Rightarrow> (hrow, 'd) loaded list list \<Rightarrow> (hrow, 'd) loaded list list" where
  "hitratio_files U to_datetime fs self pattern [] all_results = all_results"
| "hitratio_files U to_datetime fs self pattern (filename # names) all_results =
     (if \<not> (endswith filename (asc ''.txt'') \<or> endswith filename (asc ''.log''))
      then hitratio_files U to_datetime fs self pattern names all_results
      else if (case pattern of None \<Rightarrow> False | Some p \<Rightarrow> \<not> p filename)
      then hitratio_files U to_datetime fs self pattern names all_results
      else (case hitratio_frame U to_datetime fs self filename of
              Inl e \<Rightarrow> hitratio_files U to_datetime fs self pattern names all_results
            | Inr df \<Rightarrow> hitratio_files U to_datetime fs self pattern names (all_results @ [df])))"

definition load_test_results ::
  "unicode \<Rightarrow> (str \<Rightarrow> 'd option) \<Rightarrow> filesystem \<Rightarrow> str list \<Rightarrow> (hrow, 'd) loaded analyzer \<Rightarrow>
   (str \<Rightarrow> bool) option \<Rightarrow> (hrow, 'd) loaded analyzer \<times> (error + (hrow, 'd) loaded list)" where
  "load_test_results U to_datetime fs names self pattern =
     (let all_results = hitratio_files U to_datetime fs self pattern names []
      in if all_results = [] then (self, Inl ValueError)
         else (self\<lparr>results := Some (concat all_results)\<rparr>, Inr (concat all_results)))"


section \<open>The concurrency analyzer\<close>

text \<open>
  What \<open>json.loads\<close> returns. The parser itself belongs to the standard library: it
  is the parameter \<open>loads\<close> below, which gives the value or the error raised:
  \<open>JSONDecodeError\<close> for text that is not JSON, and also \<open>ValueError\<close> for an
  integer of more than 4300 digits and \<open>RecursionError\<close> for too deep a nesting,
  neither of which is a \<open>JSONDecodeError\<close>. An object is the list of its items.
\<close>

datatype json =
    JNull
  | JBool bool
  | JInt int
  | JFloat pyfloat
  | JStr str
  | JArr "json list"
  | JObj "(str \<times> json) list"

text \<open>\<open>x.get(k, d)\<close>: only a \<open>dict\<close> has the method.\<close>

fun get :: "json \<Rightarrow> str \<Rightarrow> json \<Rightarrow> error + json" where
  "get (JObj items) k d = Inr (case map_of items k of None \<Rightarrow> d | Some v \<Rightarrow> v)"
| "get x k d = Inl AttributeError"

text \<open>Numbers in arithmetic: \<open>int\<close> (and \<open>bool\<close>, which is an \<open>int\<close>) or \<open>float\<close>.\<close>

datatype num = NI int | NF pyfloat

fun as_num :: "json \<Rightarrow> error + num" where
  "as_num (JInt n) = Inr (NI n)"
| "as_num (JBool b) = Inr (NI (if b then 1 else 0))"
| "as_num (JFloat x) = Inr (NF x)"
| "as_num x = Inl TypeError"

fun as_float :: "num \<Rightarrow> error + pyfloat" where
  "as_float (NI n) = float_of_int n"
| "as_float (NF x) = Inr x"

text \<open>\<open>n - v\<close> and \<open>n * v\<close> for an \<open>int\<close> literal \<open>n\<close>, and \<open>v / x\<close> for a float literal.\<close>

definition int_minus :: "int \<Rightarrow> json \<Rightarrow> error + num" where
  "int_minus n v =
     ebind (as_num v) (\<lambda>w. case w of
        NI k \<Rightarrow> Inr (NI (n - k))
      | NF x \<Rightarrow> ebind (float_of_int n) (\<lambda>y. Inr (NF (fsub y x))))"

definition int_times :: "int \<Rightarrow> num \<Rightarrow> error + num" where
  "int_times n w =
     (case w of
        NI k \<Rightarrow> Inr (NI (n * k))
      | NF x \<Rightarrow> ebind (float_of_int n) (\<lambda>y. Inr (NF (fmul y x))))"

definition truediv :: "json \<Rightarrow> pyfloat \<Rightarrow> error + pyfloat" where
  "truediv v d = ebind (as_num v) (\<lambda>w. ebind (as_float w) (\<lambda>x. fdiv x d))"

text \<open>The literals \<open>1e6\<close> and \<open>1e9\<close>.\<close>

definition f1e6 :: pyfloat where "f1e6 = Fin 15625 6"
definition f1e9 :: pyfloat where "f1e9 = Fin 1953125 9"

text \<open>
  \<^verbatim>\<open>c(\d+)\<close>, \<^verbatim>\<open>r(\d+)\<close>, \<^verbatim>\<open>d(\d+)([smh])\<close>, \<^verbatim>\<open>cache-(\w+)\<close> and \<^verbatim>\<open>(\d{8})\<close>
\<close>

definition concurrency_pattern :: re where
  "concurrency_pattern = Seq [Lit (asc ''c''), Grp 1 (Plus Digit)]"

definition rate_pattern :: re where
  "rate_pattern = Seq [Lit (asc ''r''), Grp 1 (Plus Digit)]"

definition duration_pattern :: re where
  "duration_pattern = Seq [Lit (asc ''d''), Grp 1 (Plus Digit), Grp 2 (One (OneOf (asc ''smh'')))]"

definition cache_pattern :: re where
  "cache_pattern = Seq [Lit (asc ''cache-''), Grp 1 (Plus Word)]"

definition date_pattern :: re where
  "date_pattern = Grp 1 (Rep 8 Digit)"

record test_params =
  concurrency :: int
  target_rate :: json
  target_duration :: "num option"
  cache_config :: str
  test_date :: str

record vrow = test_params +
  latency_mean :: pyfloat
  latency_p50 :: pyfloat
  latency_p90 :: pyfloat
  latency_p95 :: pyfloat
  latency_p99 :: pyfloat
  latency_max :: pyfloat
  throughput :: json
  success_rate :: num
  requests :: json
  duration :: pyfloat
  errors :: json
  rate :: json

text \<open>\<open>os.path.basename\<close>: what follows the last \<open>/\<close>.\<close>

definition basename :: "str \<Rightarrow> str" where
  "basename path = last (split (asc ''/'') path)"

definition extract_test_params :: "unicode \<Rightarrow> str \<Rightarrow> json \<Rightarrow> error + test_params" where
  "extract_test_params U filename item =
     (let base = basename filename in
      ebind (case re_search U concurrency_pattern base of
               Some m \<Rightarrow> ebind (need TypeError (group m 1)) (py_int U)
             | None \<Rightarrow> Inr 1) (\<lambda>conc.
      ebind (case re_search U rate_pattern base of
               Some m \<Rightarrow> ebind (ebind (need TypeError (group m 1)) (py_int U)) (\<lambda>n. Inr (JInt n))
             | None \<Rightarrow> get item (asc ''rate'') (JInt 0)) (\<lambda>trate.
      ebind (case re_search U duration_pattern base of
               Some m \<Rightarrow>
                 ebind (ebind (need TypeError (group m 1)) (py_int U)) (\<lambda>v.
                 ebind (need IndexError (group m 2)) (\<lambda>unit.
                   if unit = asc ''s'' then Inr (Some (NI v))
                   else if unit = asc ''m'' then Inr (Some (NI (v * 60)))
                   else if unit = asc ''h'' then Inr (Some (NI (v * 3600)))
                   else Inr None))
             | None \<Rightarrow>
                 ebind (get item (asc ''duration'') (JInt 0)) (\<lambda>d.
                 ebind (truediv d f1e9) (\<lambda>x. Inr (Some (NF x))))) (\<lambda>tdur.
        Inr \<lparr>concurrency = conc,
             target_rate = trate,
             target_duration = tdur,
             cache_config =
               (case re_search U cache_pattern base of
                  Some m \<Rightarrow> (case group m 1 of Some g \<Rightarrow> g | None \<Rightarrow> asc ''default'')
                | None \<Rightarrow> asc ''default''),
             test_date =
               (case re_search U date_pattern base of
                  Some m \<Rightarrow> (case group m 1 of Some g \<Rightarrow> g | None \<Rightarrow> asc ''00000000'')
                | None \<Rightarrow> asc ''00000000'')\<rparr>))))"

text \<open>\<open>item.get('latencies', {}).get(k, 0) / 1e6\<close>\<close>

definition latency :: "json \<Rightarrow> str \<Rightarrow> error + pyfloat" where
  "latency item k =
     ebind (get item (asc ''latencies'') (JObj [])) (\<lambda>l.
     ebind (get l k (JInt 0)) (\<lambda>v. truediv v f1e6))"

text \<open>\<open>100 * (1 - item.get('success', 0))\<close>\<close>

definition success_rate_of :: "json \<Rightarrow> error + num" where
  "success_rate_of item =
     ebind (get item (asc ''success'') (JInt 0)) (\<lambda>s.
     ebind (int_minus 1 s) (int_times 100))"

text \<open>The body of the loop over \<open>data\<close>: the row of one item.\<close>

definition vegeta_record :: "unicode \<Rightarrow> str \<Rightarrow> json \<Rightarrow> error + vrow" where
  "vegeta_record U filename item =
     ebind (extract_test_params U filename item) (\<lambda>params.
     ebind (latency item (asc ''mean'')) (\<lambda>mean.
     ebind (latency item (asc ''50th'')) (\<lambda>p50.
     ebind (latency item (asc ''90th'')) (\<lambda>p90.
     ebind (latency item (asc ''95th'')) (\<lambda>p95.
     ebind (latency item (asc ''99th'')) (\<lambda>p99.
     ebind (latency item (asc ''max'')) (\<lambda>lmax.
     ebind (get item (asc ''throughput'') (JInt 0)) (\<lambda>thr.
     ebind (success_rate_of item) (\<lambda>sr.
     ebind (get item (asc ''requests'') (JInt 0)) (\<lambda>reqs.
     ebind (ebind (get item (asc ''duration'') (JInt 0)) (\<lambda>d. truediv d f1e9)) (\<lambda>dur.
     ebind (get item (asc ''errors'') (JInt 0)) (\<lambda>errs.
     ebind (get item (asc ''rate'') (JInt 0)) (\<lambda>r.
       Inr (test_params.extend params
              (vrow.fields mean p50 p90 p95 p99 lmax thr sr reqs dur errs r)))))))))))))))"

fun vegeta_items :: "unicode \<Rightarrow> str \<Rightarrow> json list \<Rightarrow> vrow list \<Rightarrow> error + vrow list" where
  "vegeta_items U filename [] rows = Inr rows"
| "vegeta_items U filename (item # items) rows =
     ebind (vegeta_record U filename item) (\<lambda>result.
       vegeta_items U filename items (rows @ [result]))"

text \<open>
  The fallback when the whole text is not one JSON document: every line that is not
  blank is parsed on its own, and a line on which \<open>json.loads\<close> raises
  \<open>JSONDecodeError\<close> is passed over. Any other error is not caught here.
\<close>

fun vegeta_lines ::
  "(str \<Rightarrow> error + json) \<Rightarrow> str list \<Rightarrow> json list \<Rightarrow> error + json list" where
  "vegeta_lines loads [] data = Inr data"
| "vegeta_lines loads (line # ls) data =
     (if strip line \<noteq> []
      then (case loads line of
              Inr v \<Rightarrow> vegeta_lines loads ls (data @ [v])
            | Inl JSONDecodeError \<Rightarrow> vegeta_lines loads ls data
            | Inl e \<Rightarrow> Inl e)
      else vegeta_lines loads ls data)"

definition vegeta_data :: "(str \<Rightarrow> error + json) \<Rightarrow> str \<Rightarrow> error + json list" where
  "vegeta_data loads content =
     (case loads content of
        Inr (JArr xs) \<Rightarrow> Inr xs
      | Inr d \<Rightarrow> Inr [d]
      | Inl JSONDecodeError \<Rightarrow> vegeta_lines loads (split [10] (strip content)) []
      | Inl e \<Rightarrow> Inl e)"

definition parse_vegeta_content ::
  "unicode \<Rightarrow> (str \<Rightarrow> error + json) \<Rightarrow> str \<Rightarrow> str \<Rightarrow> error + vrow list" where
  "parse_vegeta_content U loads filename content =
     ebind (vegeta_data loads content) (\<lambda>data. vegeta_items U filename data [])"

definition parse_vegeta_results ::
  "unicode \<Rightarrow> (str \<Rightarrow> error + json) \<Rightarrow> filesystem \<Rightarrow> 'r analyzer \<Rightarrow> str \<Rightarrow>
   'r analyzer \<times> (error + vrow list)" where
  "parse_vegeta_results U loads fs self filename =
     (self, case fs filename of Inl e \<Rightarrow> Inl e
            | Inr content \<Rightarrow> parse_vegeta_content U loads filename content)"

text \<open>\<open>pd.to_datetime\<close> of the \<open>test_date\<close> column: every row is converted.\<close>

fun date_rows ::
  "(str \<Rightarrow> 'd option) \<Rightarrow> str \<Rightarrow> vrow list \<Rightarrow> error + (vrow, 'd) loaded list" where
  "date_rows to_datetime filename [] = Inr []"
| "date_rows to_datetime filename (r # rs) =
     ebind (need ValueError (to_datetime (test_date r))) (\<lambda>d.
     ebind (date_rows to_datetime filename rs) (\<lambda>rest.
       Inr (\<lparr>parsed = r, date = d, source_file = filename\<rparr> # rest)))"

text \<open>The body of the \<open>try\<close> in the loop of \<open>load_concurrency_results\<close>.\<close>

definition concurrency_frame ::
  "unicode \<Rightarrow> (str \<Rightarrow> error + json) \<Rightarrow> (str \<Rightarrow> 'd option) \<Rightarrow> filesystem \<Rightarrow> 'r analyzer \<Rightarrow>
   str \<Rightarrow> error + (vrow, 'd) loaded list" where
  "concurrency_frame U loads to_datetime fs self filename =
     ebind (snd (parse_vegeta_results U loads fs self (path_join (input_dir self) filename)))
       (date_rows to_datetime filename)"

fun concurrency_files ::
  "unicode \<Rightarrow> (str \<Rightarrow> error + json) \<Rightarrow> (str \<Rightarrow> 'd option) \<Rightarrow> filesystem \<Rightarrow> 'r analyzer \<Rightarrow>
   (str \<Rightarrow> bool) option \<Rightarrow> str list \<Rightarrow> (vrow, 'd) loaded list list \<Rightarrow> (vrow, 'd) loaded list list" where
  "concurrency_files U loads to_datetime fs self pattern [] all_results = all_results"
| "concurrency_files U loads to_datetime fs self pattern (filename # names) all_results =
     (if \<not> (endswith filename (asc ''.json'') \<or> endswith filename (asc ''.vegeta''))
      then concurrency_files U loads to_datetime fs self pattern names all_results
      else if (case pattern of None \<Rightarrow> False | Some p \<Rightarrow> \<not> p filename)
      then concurrency_files U loads to_datetime fs self pattern names all_results
      else (case concurrency_frame U loads to_datetime fs self filename of
              Inl e \<Rightarrow> concurrency_files U loads to_datetime fs self pattern names all_results
            | Inr df \<Rightarrow>
                concurrency_files U loads to_datetime fs self pattern names (all_results @ [df])))"

definition load_concurrency_results ::
  "unicode \<Rightarrow> (str \<Rightarrow> error + json) \<Rightarrow> (str \<Rightarrow> 'd option) \<Rightarrow> filesystem \<Rightarrow> str list \<Rightarrow>
   (vrow, 'd) loaded analyzer \<Rightarrow> (str \<Rightarrow> bool) option \<Rightarrow>
   (vrow, 'd) loaded analyzer \<times> (error + (vrow, 'd) loaded list)" where
  "load_concurrency_results U loads to_datetime fs names self pattern =
     (let all_results = concurrency_files U loads to_datetime fs self pattern names []
      in if all_results = [] then (self, Inl ValueError)
         else (self\<lparr>results := Some (concat all_results)\<rparr>, Inr (concat all_results)))"

section \<open>The profile analyzer: the table of top functions\<close>







section \<open>Tables and inputs of the examples\<close>

text \<open>
  The Unicode tables restricted to the code points of the examples: ASCII, the micro
  sign and the CJK ideographs of the labels. The micro sign and the ideographs are
  alphanumeric, none of them is a digit, and lower-casing leaves them as they are.
\<close>

definition example_unicode :: unicode where
  "example_unicode =
     \<lparr>uni_alnum = (\<lambda>c. c = 181 \<or> (19968 \<le> c \<and> c \<le> 40959)),
      uni_digit = (\<lambda>c. None),
      uni_lower = (\<lambda>before c after. [c])\<rparr>"

text \<open>A benchmark file of five lines, the fourth cut off after the iteration count.\<close>

definition benchmark_file_example :: str where
  "benchmark_file_example =
     asc ''BenchmarkGet-8   1000000   123.4 ns/op   48 B/op   2 allocs/op'' @ [10] @
     asc ''BenchmarkSet-8   500000   250 ns/op'' @ [10] @
     asc ''BenchmarkDelete-8   2000000   80.5 ns/op   0 B/op'' @ [10] @
     asc ''BenchmarkEvict-8   30000'' @ [10] @
     asc ''BenchmarkMixed   10000   99.9 ns/op   16 B/op   1 allocs/op''"

text \<open>
  Two statistics blocks with the same number of operations, a transcript with the first
  of them, and one with both, each under its own test.
\<close>

definition stats_block_a :: str where
  "stats_block_a =
     label_result @ asc '':'' @ [10] @
     label_total @ asc '': 1000'' @ [10] @
     label_hits @ asc '': 800'' @ [10] @
     label_misses @ asc '': 200'' @ [10] @
     label_hit_ratio @ asc '': 80.0%'' @ [10] @
     label_evictions @ asc '': 50'' @ [10] @
     label_eviction_ratio @ asc '': 5.0%'' @ [10] @
     label_duration @ asc '': 123.4ms'' @ [10]"

definition stats_block_b :: str where
  "stats_block_b =
     label_result @ asc '':'' @ [10] @
     label_total @ asc '': 1000'' @ [10] @
     label_hits @ asc '': 600'' @ [10] @
     label_misses @ asc '': 400'' @ [10] @
     label_hit_ratio @ asc '': 60.0%'' @ [10] @
     label_evictions @ asc '': 70'' @ [10] @
     label_eviction_ratio @ asc '': 7.0%'' @ [10] @
     label_duration @ asc '': 2s'' @ [10]"

definition transcript_one :: str where
  "transcript_one = asc ''=== RUN   TestZipfLow_LRU_Size5000'' @ [10] @ stats_block_a"

definition transcript_two :: str where
  "transcript_two =
     asc ''=== RUN   TestZipfLow_LRU_Size5000'' @ [10] @ stats_block_a @
     asc ''=== RUN   TestUniform_LFU_Size100'' @ [10] @ stats_block_b"

text \<open>The text between the first \<open>=== RUN\<close> and the first block of both transcripts.\<close>

definition context_a :: str where
  "context_a = asc ''   TestZipfLow_LRU_Size5000'' @ [10] @ label_result @ asc '':'' @ [10]"

text \<open>A transcript whose test names a cache of size zero, and one that names nothing.\<close>

definition transcript_size_zero :: str where
  "transcript_size_zero = asc ''=== RUN   TestEmpty_Size0'' @ [10] @ stats_block_a"

definition context_size_zero :: str where
  "context_size_zero = asc ''   TestEmpty_Size0'' @ [10] @ label_result @ asc '':'' @ [10]"

definition transcript_plain :: str where
  "transcript_plain = asc ''=== RUN   TestMixed'' @ [10] @ stats_block_a"

definition context_plain :: str where
  "context_plain = asc ''   TestMixed'' @ [10] @ label_result @ asc '':'' @ [10]"

text \<open>
  A benchmark line whose iteration count has 4301 digits: \<open>BenchmarkBig\<close>, a space,
  the digit 1 written 4301 times, and \<open> 1 ns/op\<close>.
\<close>

definition ones_4300 :: str where
  "ones_4300 = replicate 4300 49"

definition long_benchmark_line :: str where
  "long_benchmark_line = asc ''BenchmarkBig '' @ 49 # ones_4300 @ asc '' 1 ns/op''"

text \<open>
  Load test results. \<open>quoted s\<close> is \<open>s\<close> between double quotes; \<open>payload_095\<close> is the
  text \<^verbatim>\<open>{"success": 0.95}\<close>.
\<close>

definition quoted :: "str \<Rightarrow> str" where
  "quoted s = 34 # s @ [34]"

definition payload_095 :: str where
  "payload_095 = asc ''{'' @ quoted (asc ''success'') @ asc '': 0.95}''"

text \<open>
  \<open>json.loads\<close> on the texts of the examples: the two objects, the number of 4301
  digits, on which it raises \<open>ValueError\<close> (the limit of \<open>int\<close>), and the other texts
  of the examples (two or three lines, a line \<^verbatim>\<open>{broken\<close>), none of which is a JSON
  document.
\<close>

definition loads_example :: "str \<Rightarrow> error + json" where
  "loads_example s =
     (if s = payload_095 then Inr (JObj [(asc ''success'', JFloat (round_q 95 100))])
      else if s = asc ''{}'' then Inr (JObj [])
      else if s = 49 # ones_4300 then Inl ValueError
      else Inl JSONDecodeError)"

text \<open>
  Two files of one JSON value per line: \<^verbatim>\<open>{}\<close> and the number of 4301 digits; and
  the object with \<open>success\<close>, a line that is not JSON, and \<^verbatim>\<open>{}\<close>.
\<close>

definition ndjson_long :: str where
  "ndjson_long = asc ''{}'' @ [10] @ 49 # ones_4300"

definition ndjson_broken :: str where
  "ndjson_broken = payload_095 @ [10] @ asc ''{broken'' @ [10] @ asc ''{}''"

text \<open>
  The row of an object that has none of the fields but \<open>success\<close>, in a file named
  \<open>load.json\<close>: every parameter and metric has its default, the success rate is \<open>sr\<close>.
\<close>

definition empty_row :: "num \<Rightarrow> vrow" where
  "empty_row sr =
     \<lparr>concurrency = 1, target_rate = JInt 0, target_duration = Some (NF (Fin 0 0)),
      cache_config = asc ''default'', test_date = asc ''00000000'',
      latency_mean = Fin 0 0, latency_p50 = Fin 0 0, latency_p90 = Fin 0 0,
      latency_p95 = Fin 0 0, latency_p99 = Fin 0 0, latency_max = Fin 0 0,
      throughput = JInt 0, success_rate = sr, requests = JInt 0, duration = Fin 0 0,
      errors = JInt 0, rate = JInt 0\<rparr>"

text \<open>
  A directory \<open>in\<close> as \<open>os.listdir\<close> gives it: a text file that cannot be read, a
  transcript with one statistics block, a file that is no test output, and a transcript
  without any statistics block. \<open>dates_example\<close> is \<open>pd.to_datetime\<close> on the two dates
  of the file names, as year, month and day; any other string here is not a date.
\<close>

definition dates_example :: "str \<Rightarrow> (nat \<times> nat \<times> nat) option" where
  "dates_example s =
     (if s = asc ''20240101'' then Some (2024, 1, 1)
      else if s = asc ''20240102'' then Some (2024, 1, 2)
      else None)"

definition files_example :: filesystem where
  "files_example path =
     (if path = asc ''in/hitratio_20240101.log'' then Inr transcript_one
      else if path = asc ''in/hitratio_20240102.txt'' then Inr (asc ''no statistics here'')
      else Inl OSError)"

definition names_example :: "str list" where
  "names_example =
     [asc ''broken.txt'', asc ''hitratio_20240101.log'', asc ''notes.md'',
      asc ''hitratio_20240102.txt'']"

definition analyzer_example :: "'r analyzer" where
  "analyzer_example = \<lparr>input_dir = asc ''in'', output_dir = asc ''out'', results = None\<rparr>"



section \<open>Notions used in the proofs\<close>

text \<open>
  What the groups of the benchmark pattern can hold: a non-empty run of digits, a
  decimal number, and for an optional group either nothing or one binding.
\<close>

definition is_digits :: "unicode \<Rightarrow> str \<Rightarrow> bool" where
  "is_digits U w = (w \<noteq> [] \<and> list_all (is_digit U) w)"

definition is_decimal :: "unicode \<Rightarrow> str \<Rightarrow> bool" where
  "is_decimal U w =
     (is_digits U w \<or> (\<exists>a b. is_digits U a \<and> is_digits U b \<and> w = a @ [46] @ b))"

definition opt_digits :: "unicode \<Rightarrow> nat \<Rightarrow> caps \<Rightarrow> bool" where
  "opt_digits U g c = (c = [] \<or> (\<exists>w. is_digits U w \<and> c = [(g, w)]))"

definition bench_caps :: "unicode \<Rightarrow> caps \<Rightarrow> bool" where
  "bench_caps U c =
     (\<exists>w o2 g3 g4 o5 o6.
        c = o6 @ o5 @ (4, g4) # (3, g3) # o2 @ [(1, asc ''Benchmark'' @ w)] \<and>
        w \<noteq> [] \<and> list_all (is_word U) w \<and> opt_digits U 2 o2 \<and> is_digits U g3 \<and>
        is_decimal U g4 \<and> opt_digits U 5 o5 \<and> opt_digits U 6 o6)"

text \<open>The characters of \<^verbatim>\<open>[0-9.]\<close>, of which the number of a duration is made.\<close>

definition num_chars :: "str \<Rightarrow> bool" where
  "num_chars s = (\<forall>c \<in> set s. (48 \<le> c \<and> c \<le> 57) \<or> c = 46)"

text \<open>
  The first result of the matcher, computed without the later ones: \<open>first_k U r st K\<close>
  is the first value that the continuation \<open>K\<close> gives on the states that \<open>r\<close> reaches
  from \<open>st\<close>, in the order of the matcher.
\<close>

definition first :: "'a list \<Rightarrow> 'a option" where
  "first xs = (case xs of [] \<Rightarrow> None | x # _ \<Rightarrow> Some x)"

definition opt_list :: "'a option \<Rightarrow> 'a list" where
  "opt_list x = (case x of None \<Rightarrow> [] | Some y \<Rightarrow> [y])"

definition first_with :: "(mstate \<Rightarrow> 'a option) \<Rightarrow> mstate list \<Rightarrow> 'a option" where
  "first_with K sts = first (concat (map (\<lambda>st. opt_list (K st)) sts))"

definition first_k :: "unicode \<Rightarrow> re \<Rightarrow> mstate \<Rightarrow> (mstate \<Rightarrow> 'a option) \<Rightarrow> 'a option" where
  "first_k U r st K = first_with K (run U r st)"

definition first_seq_k ::
  "unicode \<Rightarrow> re list \<Rightarrow> mstate \<Rightarrow> (mstate \<Rightarrow> 'a option) \<Rightarrow> 'a option" where
  "first_seq_k U rs st K = first_with K (run_seq U rs st)"

definition first_greedy ::
  "(nat \<Rightarrow> bool) \<Rightarrow> nat \<Rightarrow> str \<Rightarrow> caps \<Rightarrow> (mstate \<Rightarrow> 'a option) \<Rightarrow> 'a option" where
  "first_greedy p i s c K = first_with K (greedy_star p i s c)"

definition first_lazy ::
  "(nat \<Rightarrow> bool) \<Rightarrow> nat \<Rightarrow> str \<Rightarrow> caps \<Rightarrow> (mstate \<Rightarrow> 'a option) \<Rightarrow> 'a option" where
  "first_lazy p i s c K = first_with K (lazy_star p i s c)"

text \<open>
  The integers of a benchmark line that \<open>int\<close> can read: no integer group of its
  match (parallelism, iterations, bytes, allocations) has more than 4300 digits.
\<close>

definition int_fields_short :: "unicode \<Rightarrow> str \<Rightarrow> bool" where
  "int_fields_short U line =
     (case re_match U benchmark_pattern line of
        None \<Rightarrow> True
      | Some m \<Rightarrow>
          list_all (\<lambda>g. case group m g of None \<Rightarrow> True | Some d \<Rightarrow> length d \<le> max_str_digits)
            [2, 3, 5, 6])"

text \<open>
  The record that a matching line is to give, from the groups of its match: the name
  (which is also the full name), the parallelism or 1, the iterations, the time, and
  the bytes and allocations, each 0 when the line has none.
\<close>

definition int_field :: "unicode \<Rightarrow> caps \<Rightarrow> nat \<Rightarrow> int \<Rightarrow> int" where
  "int_field U m g d = (case group m g of None \<Rightarrow> d | Some w \<Rightarrow> digits_val U w)"

definition row_of_match :: "unicode \<Rightarrow> caps \<Rightarrow> brow \<Rightarrow> bool" where
  "row_of_match U m row =
     (\<exists>nm g3 g4 x.
        group m 1 = Some nm \<and> group m 3 = Some g3 \<and> group m 4 = Some g4 \<and>
        py_float U g4 = Inr x \<and>
        row = [(asc ''name'', S nm), (asc ''full_name'', S nm),
               (asc ''procs'', I (int_field U m 2 1)),
               (asc ''iterations'', I (digits_val U g3)),
               (asc ''ns_per_op'', F x),
               (asc ''bytes_per_op'', I (int_field U m 5 0)),
               (asc ''allocs_per_op'', I (int_field U m 6 0))])"

text \<open>
  The success rate as the specification words it: the \<open>success\<close> field of the result
  object, 0 when the object has none, and 100 times (1 minus it), in the arithmetic of
  its type (\<open>int\<close>, or float, where 100 is \<open>Fin 25 2\<close> and 1 is \<open>Fin 1 0\<close>).
\<close>

definition success_field :: "json \<Rightarrow> json option" where
  "success_field item =
     (case item of
        JObj d \<Rightarrow> Some (case map_of d (asc ''success'') of None \<Rightarrow> JInt 0 | Some v \<Rightarrow> v)
      | _ \<Rightarrow> None)"

definition hundred_times_one_minus :: "json \<Rightarrow> num option" where
  "hundred_times_one_minus s =
     (case s of
        JInt k \<Rightarrow> Some (NI (100 * (1 - k)))
      | JBool b \<Rightarrow> Some (NI (100 * (1 - (if b then 1 else 0))))
      | JFloat x \<Rightarrow> Some (NF (fmul (Fin 25 2) (fsub (Fin 1 0) x)))
      | _ \<Rightarrow> None)"

text \<open>
  The lines of a file of one JSON value per line: \<open>decodes\<close> holds of a line on which
  \<open>json.loads\<close> returns a value or raises \<open>JSONDecodeError\<close>, and \<open>line_values\<close>
  are the values of the lines that are not blank and on which it returns, in their order.
\<close>

definition nonblank :: "str \<Rightarrow> bool" where
  "nonblank l = (strip l \<noteq> [])"

definition decodes :: "(str \<Rightarrow> error + json) \<Rightarrow> str \<Rightarrow> bool" where
  "decodes loads l = (case loads l of Inr v \<Rightarrow> True | Inl e \<Rightarrow> e = JSONDecodeError)"

definition line_values :: "(str \<Rightarrow> error + json) \<Rightarrow> str list \<Rightarrow> json list" where
  "line_values loads ls =
     concat (map (\<lambda>l. case loads l of Inr v \<Rightarrow> [v] | Inl e \<Rightarrow> []) (filter nonblank ls))"

text \<open>
  The loaders: \<open>rights\<close> keeps the values of the steps that did not raise;
  a file is selected when its name has one of the extensions of the loader and passes
  the filter of the caller; \<open>loaded_frames\<close> is the outcome of a loader from the frames
  of the files it has loaded: an error when there is none, else their rows.
\<close>

definition rights :: "(error + 'a) list \<Rightarrow> 'a list" where
  "rights xs = concat (map (\<lambda>x. case x of Inl e \<Rightarrow> [] | Inr v \<Rightarrow> [v]) xs)"

definition filtered :: "(str \<Rightarrow> bool) option \<Rightarrow> str \<Rightarrow> bool" where
  "filtered pattern filename = (case pattern of None \<Rightarrow> True | Some p \<Rightarrow> p filename)"

definition benchmark_selected :: "(str \<Rightarrow> bool) option \<Rightarrow> str \<Rightarrow> bool" where
  "benchmark_selected pattern filename =
     (endswith filename (asc ''.txt'') \<and> filtered pattern filename)"

definition hitratio_selected :: "(str \<Rightarrow> bool) option \<Rightarrow> str \<Rightarrow> bool" where
  "hitratio_selected pattern filename =
     ((endswith filename (asc ''.txt'') \<or> endswith filename (asc ''.log'')) \<and>
      filtered pattern filename)"

definition concurrency_selected :: "(str \<Rightarrow> bool) option \<Rightarrow> str \<Rightarrow> bool" where
  "concurrency_selected pattern filename =
     ((endswith filename (asc ''.json'') \<or> endswith filename (asc ''.vegeta'')) \<and>
      filtered pattern filename)"

definition loaded_frames :: "'a list list \<Rightarrow> error + 'a list" where
  "loaded_frames frames = (if frames = [] then Inl ValueError else Inr (concat frames))"






section \<open>Properties of the matcher\<close>

lemma greedy_star_elim:
  "(j, s', c') \<in> set (greedy_star p i s c) \<Longrightarrow>
   \<exists>w. s = w @ s' \<and> j = i + length w \<and> list_all p w \<and> c' = c"
proof (induction s arbitrary: i)
  case Nil
  then show ?case by simp
next
  case (Cons x xs)
  from Cons.prems have "(j, s', c') = (i, x # xs, c) \<or> (p x \<and> (j, s', c') \<in> set (greedy_star p (Suc i) xs c))"
    by (auto split: if_splits)
  then show ?case
  proof
    assume "(j, s', c') = (i, x # xs, c)"
    then show ?thesis by simp
  next
    assume a: "p x \<and> (j, s', c') \<in> set (greedy_star p (Suc i) xs c)"
    with Cons.IH obtain w where "xs = w @ s'" "j = Suc i + length w" "list_all p w" "c' = c"
      by blast
    with a have "x # xs = (x # w) @ s' \<and> j = i + length (x # w) \<and> list_all p (x # w) \<and> c' = c"
      by simp
    then show ?thesis by blast
  qed
qed

lemma run_Plus_elim:
  assumes "(j, s', c') \<in> set (run U (Plus k) (i, s, c))"
  shows "\<exists>w. w \<noteq> [] \<and> s = w @ s' \<and> j = i + length w \<and> list_all (in_cls U k) w \<and> c' = c"
proof (cases s)
  case Nil
  with assms show ?thesis by simp
next
  case (Cons x xs)
  with assms have px: "in_cls U k x" and m: "(j, s', c') \<in> set (greedy_star (in_cls U k) (Suc i) xs c)"
    by (auto split: if_splits)
  from greedy_star_elim [OF m] obtain w where
    "xs = w @ s'" "j = Suc i + length w" "list_all (in_cls U k) w" "c' = c" by blast
  with px Cons have "x # w \<noteq> [] \<and> s = (x # w) @ s' \<and> j = i + length (x # w) \<and>
    list_all (in_cls U k) (x # w) \<and> c' = c" by simp
  then show ?thesis by blast
qed

lemma run_Lit_elim:
  "(j, s', c') \<in> set (run U (Lit l) (i, s, c)) \<Longrightarrow> s = l @ s' \<and> j = i + length l \<and> c' = c"
  by (auto split: if_splits simp: prefix_def)

lemma run_seq_Cons_elim:
  "x \<in> set (run_seq U (r # rs) st) \<Longrightarrow>
   \<exists>i1 s1 c1. (i1, s1, c1) \<in> set (run U r st) \<and> x \<in> set (run_seq U rs (i1, s1, c1))"
  by auto

lemma run_seq_single: "x \<in> set (run_seq U [r] st) \<Longrightarrow> x \<in> set (run U r st)"
  by simp

lemma run_seq_Nil_elim: "x \<in> set (run_seq U [] st) \<Longrightarrow> x = st"
  by simp

lemma run_Seq_elim: "x \<in> set (run U (Seq rs) st) \<Longrightarrow> x \<in> set (run_seq U rs st)"
  by simp

lemma run_Grp_elim:
  "(j, s', c') \<in> set (run U (Grp g r) (i, s, c)) \<Longrightarrow>
   \<exists>c''. (j, s', c'') \<in> set (run U r (i, s, c)) \<and> c' = (g, take (j - i) s) # c''"
  by auto

lemma run_Opt_elim:
  "x \<in> set (run U (Opt r) st) \<Longrightarrow> x \<in> set (run U r st) \<or> x = st"
  by auto

lemma run_Bos_elim: "(j, s', c') \<in> set (run U Bos (i, s, c)) \<Longrightarrow> c' = c"
  by (simp split: if_splits)

lemma run_Eos_elim: "(j, s', c') \<in> set (run U Eos (i, s, c)) \<Longrightarrow> c' = c"
  by (simp split: if_splits)

lemma digits_group:
  assumes "(j, s', c') \<in> set (run U (Grp g (Plus Digit)) (i, s, c))"
  shows "\<exists>w. is_digits U w \<and> s = w @ s' \<and> j = i + length w \<and> c' = (g, w) # c"
proof -
  from run_Grp_elim [OF assms] obtain c'' where
    m: "(j, s', c'') \<in> set (run U (Plus Digit) (i, s, c))" and c': "c' = (g, take (j - i) s) # c''"
    by blast
  from run_Plus_elim [OF m] obtain w where
    w: "w \<noteq> []" "s = w @ s'" "j = i + length w" "list_all (in_cls U Digit) w" "c'' = c" by blast
  then have "take (j - i) s = w" by simp
  with w c' show ?thesis by (auto simp: list_all_iff is_digits_def)
qed

lemma name_group:
  assumes "(j, s', c') \<in> set (run U (Grp g (Seq [Lit l, Plus k])) (i, s, c))"
  shows "\<exists>w. w \<noteq> [] \<and> list_all (in_cls U k) w \<and> c' = (g, l @ w) # c"
proof -
  from run_Grp_elim [OF assms] obtain c'' where
    m: "(j, s', c'') \<in> set (run U (Seq [Lit l, Plus k]) (i, s, c))"
    and c': "c' = (g, take (j - i) s) # c''" by blast
  from run_seq_Cons_elim [OF run_Seq_elim [OF m]] obtain i1 s1 c1 where
    a: "(i1, s1, c1) \<in> set (run U (Lit l) (i, s, c))"
    and b: "(j, s', c'') \<in> set (run_seq U [Plus k] (i1, s1, c1))" by blast
  note b' = run_seq_single [OF b]
  from run_Lit_elim [OF a] have a': "s = l @ s1" "i1 = i + length l" "c1 = c" by auto
  from run_Plus_elim [OF b'] obtain w where
    w: "w \<noteq> []" "s1 = w @ s'" "j = i1 + length w" "list_all (in_cls U k) w" "c'' = c1" by blast
  from a' w have "take (j - i) s = l @ w" by simp
  with c' a' w show ?thesis by auto
qed

lemma decimal_group:
  assumes "(j, s', c') \<in> set (run U (Grp g (Seq [Plus Digit, Opt (Seq [Lit [46], Plus Digit])])) (i, s, c))"
  shows "\<exists>w. is_decimal U w \<and> c' = (g, w) # c"
proof -
  from run_Grp_elim [OF assms] obtain c'' where
    m: "(j, s', c'') \<in> set (run U (Seq [Plus Digit, Opt (Seq [Lit [46], Plus Digit])]) (i, s, c))"
    and c': "c' = (g, take (j - i) s) # c''" by blast
  from run_seq_Cons_elim [OF run_Seq_elim [OF m]] obtain i1 s1 c1 where
    a: "(i1, s1, c1) \<in> set (run U (Plus Digit) (i, s, c))"
    and b: "(j, s', c'') \<in> set (run_seq U [Opt (Seq [Lit [46], Plus Digit])] (i1, s1, c1))" by blast
  from run_Plus_elim [OF a] obtain w where
    w: "w \<noteq> []" "s = w @ s1" "i1 = i + length w" "list_all (in_cls U Digit) w" "c1 = c" by blast
  then have dw: "is_digits U w" by (simp add: is_digits_def list_all_iff)
  from run_Opt_elim [OF run_seq_single [OF b]]
  have "(j, s', c'') \<in> set (run U (Seq [Lit [46], Plus Digit]) (i1, s1, c1)) \<or> (j, s', c'') = (i1, s1, c1)" .
  then show ?thesis
  proof
    assume "(j, s', c'') = (i1, s1, c1)"
    with w have "take (j - i) s = w" "c'' = c" by auto
    with c' dw show ?thesis by (auto simp: is_decimal_def)
  next
    assume "(j, s', c'') \<in> set (run U (Seq [Lit [46], Plus Digit]) (i1, s1, c1))"
    from run_seq_Cons_elim [OF run_Seq_elim [OF this]] obtain i2 s2 c2 where
      d: "(i2, s2, c2) \<in> set (run U (Lit [46]) (i1, s1, c1))"
      and e: "(j, s', c'') \<in> set (run_seq U [Plus Digit] (i2, s2, c2))" by blast
    note e' = run_seq_single [OF e]
    from run_Lit_elim [OF d] have d': "s1 = [46] @ s2" "i2 = i1 + length [46::nat]" "c2 = c1" by auto
    from run_Plus_elim [OF e'] obtain v where
      v: "v \<noteq> []" "s2 = v @ s'" "j = i2 + length v" "list_all (in_cls U Digit) v" "c'' = c2" by blast
    then have dv: "is_digits U v" by (simp add: is_digits_def list_all_iff)
    from w d' v have "take (j - i) s = w @ [46] @ v" by simp
    with c' dw dv w d' v show ?thesis by (auto simp: is_decimal_def)
  qed
qed

lemma opt_prefixed_group:
  assumes "(j, s', c') \<in> set (run U (Opt (Seq [Lit l, Grp g (Plus Digit)])) (i, s, c))"
  shows "\<exists>o2. opt_digits U g o2 \<and> c' = o2 @ c"
proof -
  from run_Opt_elim [OF assms]
  have "(j, s', c') \<in> set (run U (Seq [Lit l, Grp g (Plus Digit)]) (i, s, c)) \<or> (j, s', c') = (i, s, c)" .
  then show ?thesis
  proof
    assume "(j, s', c') = (i, s, c)"
    then show ?thesis by (auto simp: opt_digits_def)
  next
    assume "(j, s', c') \<in> set (run U (Seq [Lit l, Grp g (Plus Digit)]) (i, s, c))"
    from run_seq_Cons_elim [OF run_Seq_elim [OF this]] obtain i1 s1 c1 where
      a: "(i1, s1, c1) \<in> set (run U (Lit l) (i, s, c))"
      and b: "(j, s', c') \<in> set (run_seq U [Grp g (Plus Digit)] (i1, s1, c1))" by blast
    note b' = run_seq_single [OF b]
    from run_Lit_elim [OF a] have "c1 = c" by simp
    with digits_group [OF b'] show ?thesis by (auto simp: opt_digits_def)
  qed
qed

lemma opt_spaced_group:
  assumes "(j, s', c') \<in> set (run U (Opt (Seq [Plus k, Grp g (Plus Digit), Lit l])) (i, s, c))"
  shows "\<exists>o2. opt_digits U g o2 \<and> c' = o2 @ c"
proof -
  from run_Opt_elim [OF assms]
  have "(j, s', c') \<in> set (run U (Seq [Plus k, Grp g (Plus Digit), Lit l]) (i, s, c)) \<or> (j, s', c') = (i, s, c)" .
  then show ?thesis
  proof
    assume "(j, s', c') = (i, s, c)"
    then show ?thesis by (auto simp: opt_digits_def)
  next
    assume "(j, s', c') \<in> set (run U (Seq [Plus k, Grp g (Plus Digit), Lit l]) (i, s, c))"
    from run_seq_Cons_elim [OF run_Seq_elim [OF this]] obtain i1 s1 c1 where
      a: "(i1, s1, c1) \<in> set (run U (Plus k) (i, s, c))"
      and b: "(j, s', c') \<in> set (run_seq U [Grp g (Plus Digit), Lit l] (i1, s1, c1))" by blast
    from run_seq_Cons_elim [OF b] obtain i2 s2 c2 where
      d: "(i2, s2, c2) \<in> set (run U (Grp g (Plus Digit)) (i1, s1, c1))"
      and e: "(j, s', c') \<in> set (run_seq U [Lit l] (i2, s2, c2))" by blast
    note e' = run_seq_single [OF e]
    from run_Plus_elim [OF a] have "c1 = c" by blast
    moreover from run_Lit_elim [OF e'] have "c' = c2" by simp
    ultimately show ?thesis using digits_group [OF d] by (auto simp: opt_digits_def)
  qed
qed

lemma benchmark_caps:
  assumes "(j, s', c') \<in> set (run U benchmark_pattern (0, line, []))"
  shows "bench_caps U c'"
proof -
  have dot: "asc ''.'' = [46]" by (simp add: asc_def)
  from assms have "(j, s', c') \<in> set (run U (Seq
     [Bos,
      Grp 1 (Seq [Lit (asc ''Benchmark''), Plus Word]),
      Opt (Seq [Lit (asc ''-''), Grp 2 (Plus Digit)]),
      Plus Space,
      Grp 3 (Plus Digit),
      Plus Space,
      Grp 4 (Seq [Plus Digit, Opt (Seq [Lit [46], Plus Digit])]),
      Lit (asc '' ns/op''),
      Opt (Seq [Plus Space, Grp 5 (Plus Digit), Lit (asc '' B/op'')]),
      Opt (Seq [Plus Space, Grp 6 (Plus Digit), Lit (asc '' allocs/op'')]),
      Eos]) (0, line, []))"
    by (simp only: benchmark_pattern_def dot)
  from run_seq_Cons_elim [OF run_Seq_elim [OF this]] obtain i0 s0 c0 where
    a0: "(i0, s0, c0) \<in> set (run U Bos (0, line, []))"
    and r0: "(j, s', c') \<in> set (run_seq U
     [Grp 1 (Seq [Lit (asc ''Benchmark''), Plus Word]),
      Opt (Seq [Lit (asc ''-''), Grp 2 (Plus Digit)]),
      Plus Space,
      Grp 3 (Plus Digit),
      Plus Space,
      Grp 4 (Seq [Plus Digit, Opt (Seq [Lit [46], Plus Digit])]),
      Lit (asc '' ns/op''),
      Opt (Seq [Plus Space, Grp 5 (Plus Digit), Lit (asc '' B/op'')]),
      Opt (Seq [Plus Space, Grp 6 (Plus Digit), Lit (asc '' allocs/op'')]),
      Eos] (i0, s0, c0))" by blast
  from run_Bos_elim [OF a0] have k0: "c0 = []" .
  from run_seq_Cons_elim [OF r0] obtain i1 s1 c1 where
    a1: "(i1, s1, c1) \<in> set (run U (Grp 1 (Seq [Lit (asc ''Benchmark''), Plus Word])) (i0, s0, c0))"
    and r1: "(j, s', c') \<in> set (run_seq U
     [Opt (Seq [Lit (asc ''-''), Grp 2 (Plus Digit)]),
      Plus Space,
      Grp 3 (Plus Digit),
      Plus Space,
      Grp 4 (Seq [Plus Digit, Opt (Seq [Lit [46], Plus Digit])]),
      Lit (asc '' ns/op''),
      Opt (Seq [Plus Space, Grp 5 (Plus Digit), Lit (asc '' B/op'')]),
      Opt (Seq [Plus Space, Grp 6 (Plus Digit), Lit (asc '' allocs/op'')]),
      Eos] (i1, s1, c1))" by blast
  from name_group [OF a1] k0 obtain w where
    k1: "w \<noteq> []" "list_all (is_word U) w" "c1 = [(1, asc ''Benchmark'' @ w)]"
    by (auto simp: list_all_iff)
  from run_seq_Cons_elim [OF r1] obtain i2 s2 c2 where
    a2: "(i2, s2, c2) \<in> set (run U (Opt (Seq [Lit (asc ''-''), Grp 2 (Plus Digit)])) (i1, s1, c1))"
    and r2: "(j, s', c') \<in> set (run_seq U
     [Plus Space,
      Grp 3 (Plus Digit),
      Plus Space,
      Grp 4 (Seq [Plus Digit, Opt (Seq [Lit [46], Plus Digit])]),
      Lit (asc '' ns/op''),
      Opt (Seq [Plus Space, Grp 5 (Plus Digit), Lit (asc '' B/op'')]),
      Opt (Seq [Plus Space, Grp 6 (Plus Digit), Lit (asc '' allocs/op'')]),
      Eos] (i2, s2, c2))" by blast
  from opt_prefixed_group [OF a2] obtain o2 where k2: "opt_digits U 2 o2" "c2 = o2 @ c1" by blast
  from run_seq_Cons_elim [OF r2] obtain i3 s3 c3 where
    a3: "(i3, s3, c3) \<in> set (run U (Plus Space) (i2, s2, c2))"
    and r3: "(j, s', c') \<in> set (run_seq U
     [Grp 3 (Plus Digit),
      Plus Space,
      Grp 4 (Seq [Plus Digit, Opt (Seq [Lit [46], Plus Digit])]),
      Lit (asc '' ns/op''),
      Opt (Seq [Plus Space, Grp 5 (Plus Digit), Lit (asc '' B/op'')]),
      Opt (Seq [Plus Space, Grp 6 (Plus Digit), Lit (asc '' allocs/op'')]),
      Eos] (i3, s3, c3))" by blast
  from run_Plus_elim [OF a3] have k3: "c3 = c2" by blast
  from run_seq_Cons_elim [OF r3] obtain i4 s4 c4 where
    a4: "(i4, s4, c4) \<in> set (run U (Grp 3 (Plus Digit)) (i3, s3, c3))"
    and r4: "(j, s', c') \<in> set (run_seq U
     [Plus Space,
      Grp 4 (Seq [Plus Digit, Opt (Seq [Lit [46], Plus Digit])]),
      Lit (asc '' ns/op''),
      Opt (Seq [Plus Space, Grp 5 (Plus Digit), Lit (asc '' B/op'')]),
      Opt (Seq [Plus Space, Grp 6 (Plus Digit), Lit (asc '' allocs/op'')]),
      Eos] (i4, s4, c4))" by blast
  from digits_group [OF a4] obtain g3 where k4: "is_digits U g3" "c4 = (3, g3) # c3" by blast
  from run_seq_Cons_elim [OF r4] obtain i5 s5 c5 where
    a5: "(i5, s5, c5) \<in> set (run U (Plus Space) (i4, s4, c4))"
    and r5: "(j, s', c') \<in> set (run_seq U
     [Grp 4 (Seq [Plus Digit, Opt (Seq [Lit [46], Plus Digit])]),
      Lit (asc '' ns/op''),
      Opt (Seq [Plus Space, Grp 5 (Plus Digit), Lit (asc '' B/op'')]),
      Opt (Seq [Plus Space, Grp 6 (Plus Digit), Lit (asc '' allocs/op'')]),
      Eos] (i5, s5, c5))" by blast
  from run_Plus_elim [OF a5] have k5: "c5 = c4" by blast
  from run_seq_Cons_elim [OF r5] obtain i6 s6 c6 where
    a6: "(i6, s6, c6) \<in> set (run U (Grp 4 (Seq [Plus Digit, Opt (Seq [Lit [46], Plus Digit])])) (i5, s5, c5))"
    and r6: "(j, s', c') \<in> set (run_seq U
     [Lit (asc '' ns/op''),
      Opt (Seq [Plus Space, Grp 5 (Plus Digit), Lit (asc '' B/op'')]),
      Opt (Seq [Plus Space, Grp 6 (Plus Digit), Lit (asc '' allocs/op'')]),
      Eos] (i6, s6, c6))" by blast
  from decimal_group [OF a6] obtain g4 where k6: "is_decimal U g4" "c6 = (4, g4) # c5" by blast
  from run_seq_Cons_elim [OF r6] obtain i7 s7 c7 where
    a7: "(i7, s7, c7) \<in> set (run U (Lit (asc '' ns/op'')) (i6, s6, c6))"
    and r7: "(j, s', c') \<in> set (run_seq U
     [Opt (Seq [Plus Space, Grp 5 (Plus Digit), Lit (asc '' B/op'')]),
      Opt (Seq [Plus Space, Grp 6 (Plus Digit), Lit (asc '' allocs/op'')]),
      Eos] (i7, s7, c7))" by blast
  from run_Lit_elim [OF a7] have k7: "c7 = c6" by simp
  from run_seq_Cons_elim [OF r7] obtain i8 s8 c8 where
    a8: "(i8, s8, c8) \<in> set (run U (Opt (Seq [Plus Space, Grp 5 (Plus Digit), Lit (asc '' B/op'')])) (i7, s7, c7))"
    and r8: "(j, s', c') \<in> set (run_seq U
     [Opt (Seq [Plus Space, Grp 6 (Plus Digit), Lit (asc '' allocs/op'')]),
      Eos] (i8, s8, c8))" by blast
  from opt_spaced_group [OF a8] obtain o5 where k8: "opt_digits U 5 o5" "c8 = o5 @ c7" by blast
  from run_seq_Cons_elim [OF r8] obtain i9 s9 c9 where
    a9: "(i9, s9, c9) \<in> set (run U (Opt (Seq [Plus Space, Grp 6 (Plus Digit), Lit (asc '' allocs/op'')])) (i8, s8, c8))"
    and r9: "(j, s', c') \<in> set (run_seq U [Eos] (i9, s9, c9))" by blast
  from opt_spaced_group [OF a9] obtain o6 where k9: "opt_digits U 6 o6" "c9 = o6 @ c8" by blast
  from run_Eos_elim [OF run_seq_single [OF r9]] have "c' = c9" .
  with k1 k2 k3 k4 k5 k6 k7 k8 k9
  have "c' = o6 @ o5 @ (4, g4) # (3, g3) # o2 @ [(1, asc ''Benchmark'' @ w)]" by simp
  with k1 k2 k4 k6 k8 k9 show ?thesis unfolding bench_caps_def by blast
qed

subsection \<open>Computing the first match\<close>

lemma first_with_Nil: "first_with K [] = None"
  by (simp add: first_with_def first_def)

lemma first_with_Cons: "first_with K (st # sts) = (case K st of Some v \<Rightarrow> Some v | None \<Rightarrow> first_with K sts)"
  by (simp add: first_with_def first_def opt_list_def split: option.splits)

lemma first_with_append:
  "first_with K (xs @ ys) = (case first_with K xs of Some v \<Rightarrow> Some v | None \<Rightarrow> first_with K ys)"
  by (induction xs) (simp_all add: first_with_Nil first_with_Cons split: option.splits)

lemma first_with_single: "first_with K [st] = K st"
  by (simp add: first_with_Cons first_with_Nil split: option.splits)

lemma first_with_concat_map:
  "first_with K (concat (map f xs)) = first_with (\<lambda>x. first_with K (f x)) xs"
  by (induction xs) (simp_all add: first_with_Nil first_with_Cons first_with_append split: option.splits)

lemma first_with_map:
  "first_with K (map f xs) = first_with (\<lambda>x. K (f x)) xs"
  by (induction xs) (simp_all add: first_with_Nil first_with_Cons split: option.splits)

lemma first_greedy_Nil: "first_greedy p i [] c K = K (i, [], c)"
  by (simp add: first_greedy_def first_with_single)

lemma first_greedy_Cons:
  "first_greedy p i (x # xs) c K =
     (case (if p x then first_greedy p (Suc i) xs c K else None) of
        Some v \<Rightarrow> Some v
      | None \<Rightarrow> K (i, x # xs, c))"
  by (simp add: first_greedy_def first_with_append first_with_single first_with_Nil split: option.splits)

lemma first_lazy_Nil: "first_lazy p i [] c K = K (i, [], c)"
  by (simp add: first_lazy_def first_with_single)

lemma first_lazy_Cons:
  "first_lazy p i (x # xs) c K =
     (case K (i, x # xs, c) of
        Some v \<Rightarrow> Some v
      | None \<Rightarrow> if p x then first_lazy p (Suc i) xs c K else None)"
  by (simp add: first_lazy_def first_with_Cons first_with_Nil split: option.splits)

lemma first_k_Lit:
  "first_k U (Lit l) (i, s, c) K =
     (if prefix l s then K (i + length l, drop (length l) s, c) else None)"
  by (simp add: first_k_def first_with_single first_with_Nil)

lemma first_k_One:
  "first_k U (One k) (i, s, c) K =
     (case s of [] \<Rightarrow> None | x # xs \<Rightarrow> if in_cls U k x then K (Suc i, xs, c) else None)"
  by (simp add: first_k_def first_with_single first_with_Nil split: list.splits)

lemma first_k_Plus:
  "first_k U (Plus k) (i, s, c) K =
     (case s of [] \<Rightarrow> None
      | x # xs \<Rightarrow> if in_cls U k x then first_greedy (in_cls U k) (Suc i) xs c K else None)"
  by (simp add: first_k_def first_greedy_def first_with_Nil split: list.splits)

lemma first_k_LazyStar:
  "first_k U (LazyStar k) (i, s, c) K = first_lazy (in_cls U k) i s c K"
  by (simp add: first_k_def first_lazy_def)

lemma first_k_Rep:
  "first_k U (Rep n k) (i, s, c) K =
     (if n \<le> length s \<and> list_all (in_cls U k) (take n s) then K (i + n, drop n s, c) else None)"
  by (simp add: first_k_def first_with_single first_with_Nil)

lemma first_k_Opt:
  "first_k U (Opt r) st K = (case first_k U r st K of Some v \<Rightarrow> Some v | None \<Rightarrow> K st)"
  by (simp add: first_k_def first_with_append first_with_single split: option.splits)

lemma first_k_Alt:
  "first_k U (Alt r r') st K =
     (case first_k U r st K of Some v \<Rightarrow> Some v | None \<Rightarrow> first_k U r' st K)"
  by (simp add: first_k_def first_with_append split: option.splits)

lemma first_k_Grp:
  "first_k U (Grp g r) (i, s, c) K =
     first_k U r (i, s, c) (\<lambda>(j, s', c'). K (j, s', (g, take (j - i) s) # c'))"
  by (simp add: first_k_def first_with_map case_prod_unfold)

lemma first_k_Seq: "first_k U (Seq rs) st K = first_seq_k U rs st K"
  by (simp add: first_k_def first_seq_k_def)

lemma first_k_Bos: "first_k U Bos (i, s, c) K = (if i = 0 then K (i, s, c) else None)"
  by (simp add: first_k_def first_with_single first_with_Nil)

lemma first_k_Eos:
  "first_k U Eos (i, s, c) K = (if s = [] \<or> s = [10] then K (i, s, c) else None)"
  by (simp add: first_k_def first_with_single first_with_Nil)

lemma first_seq_k_Nil: "first_seq_k U [] st K = K st"
  by (simp add: first_seq_k_def first_with_single)

lemma first_seq_k_Cons:
  "first_seq_k U (r # rs) st K = first_k U r st (\<lambda>st1. first_seq_k U rs st1 K)"
  by (simp add: first_seq_k_def first_k_def first_with_concat_map)

lemma run_first: "(case run U r st of [] \<Rightarrow> a | (j, s', c) # _ \<Rightarrow> b j s' c) =
   (case first_k U r st Some of None \<Rightarrow> a | Some (j, s', c) \<Rightarrow> b j s' c)"
  by (cases "run U r st") (auto simp: first_k_def first_with_Nil first_with_Cons)

lemma re_match_first:
  "re_match U r s = (case first_k U r (0, s, []) Some of None \<Rightarrow> None | Some (j, s', c) \<Rightarrow> Some c)"
  unfolding re_match_def by (rule run_first)

lemma search_from_first:
  "search_from U r i [] =
     (case first_k U r (i, [], []) Some of None \<Rightarrow> None | Some (j, s', c) \<Rightarrow> Some c)"
  "search_from U r i (x # xs) =
     (case first_k U r (i, x # xs, []) Some of
        None \<Rightarrow> search_from U r (Suc i) xs
      | Some (j, s', c) \<Rightarrow> Some c)"
  by (simp_all only: search_from.simps run_first)

lemma findall_from_first:
  "findall_from U r i k [] =
     (if k = 0 then (case first_k U r (i, [], []) Some of None \<Rightarrow> [] | Some (j, s', c) \<Rightarrow> [c])
      else [])"
  "findall_from U r i k (x # xs) =
     (if 0 < k then findall_from U r (Suc i) (k - 1) xs
      else (case first_k U r (i, x # xs, []) Some of
              None \<Rightarrow> findall_from U r (Suc i) 0 xs
            | Some (j, s', c) \<Rightarrow> c # findall_from U r (Suc i) (j - i - 1) xs))"
  by (simp_all only: findall_from.simps run_first)

lemmas match_ev = re_match_first search_from_first findall_from_first re_search_def findall_def
  first_k_Lit first_k_One first_k_Plus first_k_LazyStar first_k_Rep first_k_Opt first_k_Alt
  first_k_Grp first_k_Seq first_k_Bos first_k_Eos first_seq_k_Nil first_seq_k_Cons
  first_greedy_Nil first_greedy_Cons first_lazy_Nil first_lazy_Cons

lemmas matcher_simps_off = run.simps run_seq.simps search_from.simps findall_from.simps

section \<open>The benchmark parser\<close>

lemma ebind_Inr [simp]: "ebind (Inr v) f = f v"
  by (simp add: ebind_def)

lemma ebind_Inl [simp]: "ebind (Inl e) f = Inl e"
  by (simp add: ebind_def)

lemma need_Some [simp]: "need e (Some v) = Inr v"
  by (simp add: need_def)

lemma need_None [simp]: "need e None = Inl e"
  by (simp add: need_def)

lemma split_acc_no_sep:
  "x \<notin> set s \<Longrightarrow> split_acc [x] lim acc s = [rev acc @ s]"
  by (induction s arbitrary: acc) auto

lemma split_no_sep: "x \<notin> set s \<Longrightarrow> split [x] s = [s]"
  by (simp add: split_def split_acc_no_sep)

lemma split_acc_one_sep:
  "x \<notin> set a \<Longrightarrow> x \<notin> set b \<Longrightarrow> split_acc [x] None acc (a @ x # b) = [rev acc @ a, b]"
  by (induction a arbitrary: acc) (auto simp: split_acc_no_sep)

lemma split_one_sep: "x \<notin> set a \<Longrightarrow> x \<notin> set b \<Longrightarrow> split [x] (a @ x # b) = [a, b]"
  by (simp add: split_def split_acc_one_sep)

lemma digits_no_dot: "is_digits U w \<Longrightarrow> 46 \<notin> set w"
  by (auto simp: is_digits_def list_all_iff is_digit_def)

lemma py_int_digits:
  "is_digits U w \<Longrightarrow> length w \<le> max_str_digits \<Longrightarrow> py_int U w = Inr (digits_val U w)"
  by (simp add: py_int_def is_digits_def)

lemma py_int_long: "max_str_digits < length w \<Longrightarrow> py_int U w = Inl ValueError"
  by (simp add: py_int_def)

lemma py_float_decimal: "is_decimal U w \<Longrightarrow> \<exists>x. py_float U w = Inr x"
  unfolding is_decimal_def
proof (elim disjE exE conjE)
  assume d: "is_digits U w"
  then have "split [46] w = [w]" by (simp add: split_no_sep digits_no_dot)
  with d show ?thesis by (simp add: py_float_def is_digits_def)
next
  fix a b assume d: "is_digits U a" "is_digits U b" "w = a @ [46] @ b"
  then have "split [46] w = [a, b]" by (simp add: split_one_sep digits_no_dot)
  with d show ?thesis by (simp add: py_float_def is_digits_def)
qed

text \<open>An optional group holds nothing or digits; so \<open>int(g) if g else d\<close> succeeds.\<close>

lemma group_opt:
  assumes "opt_digits U g c" "g \<notin> fst ` set pre" "g \<notin> fst ` set post"
  shows "group (pre @ c @ post) g = None \<or>
         (\<exists>w. group (pre @ c @ post) g = Some w \<and> is_digits U w)"
proof -
  from assms(2) have p: "map_of pre g = None" by (simp add: map_of_eq_None_iff)
  from assms(3) have q: "map_of post g = None" by (simp add: map_of_eq_None_iff)
  from assms(1) have "c = [] \<or> (\<exists>w. is_digits U w \<and> c = [(g, w)])" by (simp add: opt_digits_def)
  then show ?thesis
  proof
    assume "c = []"
    with p q show ?thesis by (simp add: group_def map_add_def)
  next
    assume "\<exists>w. is_digits U w \<and> c = [(g, w)]"
    then obtain w where w: "is_digits U w" "c = [(g, w)]" by blast
    with p q have "group (pre @ c @ post) g = Some w" by (simp add: group_def map_add_def)
    with w show ?thesis by simp
  qed
qed

lemma int_or_group:
  assumes "group m g = None \<or> (\<exists>w. group m g = Some w \<and> is_digits U w)"
    and "case group m g of None \<Rightarrow> True | Some w \<Rightarrow> length w \<le> max_str_digits"
  shows "int_or U (group m g) d = Inr (int_field U m g d)"
  using assms
  by (auto simp: int_or_def int_field_def py_int_digits is_digits_def)

lemma opt_digits_keys: "opt_digits U g c \<Longrightarrow> fst ` set c \<subseteq> {g}"
  by (auto simp: opt_digits_def)

lemma word_no_slash: "list_all (is_word U) w \<Longrightarrow> 47 \<notin> set (asc ''Benchmark'' @ w)"
  by (auto simp: list_all_iff is_word_def asc_def)

text \<open>What the groups of a match of the benchmark pattern hold.\<close>

lemma bench_caps_groups:
  assumes "bench_caps U m"
  shows "\<exists>nm g3 g4.
     group m 1 = Some nm \<and> 47 \<notin> set nm \<and>
     group m 3 = Some g3 \<and> is_digits U g3 \<and>
     group m 4 = Some g4 \<and> is_decimal U g4 \<and>
     (\<forall>g \<in> {2, 5, 6}. group m g = None \<or> (\<exists>w. group m g = Some w \<and> is_digits U w))"
proof -
  from assms obtain w o2 g3 g4 o5 o6 where
    m: "m = o6 @ o5 @ (4, g4) # (3, g3) # o2 @ [(1, asc ''Benchmark'' @ w)]"
    and w: "w \<noteq> []" "list_all (is_word U) w"
    and o: "opt_digits U 2 o2" "opt_digits U 5 o5" "opt_digits U 6 o6"
    and g: "is_digits U g3" "is_decimal U g4"
    unfolding bench_caps_def by blast
  let ?nm = "asc ''Benchmark'' @ w"
  note k2 = opt_digits_keys [OF o(1)] and k5 = opt_digits_keys [OF o(2)]
    and k6 = opt_digits_keys [OF o(3)]
  have n2: "map_of o2 g = None" if "g \<noteq> 2" for g
    using k2 that by (auto simp: map_of_eq_None_iff)
  have n5: "map_of o5 g = None" if "g \<noteq> 5" for g
    using k5 that by (auto simp: map_of_eq_None_iff)
  have n6: "map_of o6 g = None" if "g \<noteq> 6" for g
    using k6 that by (auto simp: map_of_eq_None_iff)
  have g1: "group m 1 = Some ?nm"
    by (simp add: m group_def map_add_def n2 n5 n6)
  have g3: "group m 3 = Some g3"
    by (simp add: m group_def map_add_def n2 n5 n6)
  have g4: "group m 4 = Some g4"
    by (simp add: m group_def map_add_def n2 n5 n6)
  have "group ((o6 @ o5 @ [(4, g4), (3, g3)]) @ o2 @ [(1, ?nm)]) 2 = None \<or>
     (\<exists>w. group ((o6 @ o5 @ [(4, g4), (3, g3)]) @ o2 @ [(1, ?nm)]) 2 = Some w \<and> is_digits U w)"
    using k5 k6 by (intro group_opt [OF o(1)]) auto
  then have c2: "group m 2 = None \<or> (\<exists>w. group m 2 = Some w \<and> is_digits U w)"
    by (simp add: m)
  have "group (o6 @ o5 @ ((4, g4) # (3, g3) # o2 @ [(1, ?nm)])) 5 = None \<or>
     (\<exists>w. group (o6 @ o5 @ ((4, g4) # (3, g3) # o2 @ [(1, ?nm)])) 5 = Some w \<and> is_digits U w)"
    using k2 k6 by (intro group_opt [OF o(2)]) auto
  then have c5: "group m 5 = None \<or> (\<exists>w. group m 5 = Some w \<and> is_digits U w)"
    by (simp add: m)
  have "group ([] @ o6 @ (o5 @ (4, g4) # (3, g3) # o2 @ [(1, ?nm)])) 6 = None \<or>
     (\<exists>w. group ([] @ o6 @ (o5 @ (4, g4) # (3, g3) # o2 @ [(1, ?nm)])) 6 = Some w \<and> is_digits U w)"
    using k2 k5 by (intro group_opt [OF o(3)]) auto
  then have c6: "group m 6 = None \<or> (\<exists>w. group m 6 = Some w \<and> is_digits U w)"
    by (simp add: m)
  have sl: "47 \<notin> set ?nm" by (rule word_no_slash [OF w(2)])
  from g1 sl g3 g4 g c2 c5 c6 show ?thesis by simp
qed

lemma benchmark_record_caps:
  assumes "bench_caps U m"
    and short: "list_all (\<lambda>g. case group m g of None \<Rightarrow> True | Some d \<Rightarrow> length d \<le> max_str_digits)
                  [2, 3, 5, 6]"
  shows "\<exists>row. benchmark_record U m = Inr row \<and> row_of_match U m row"
proof -
  from bench_caps_groups [OF assms(1)] obtain nm g3 g4 where
    g1: "group m 1 = Some nm" and sl: "47 \<notin> set nm"
    and g3: "group m 3 = Some g3" "is_digits U g3"
    and g4: "group m 4 = Some g4" "is_decimal U g4"
    and c2: "group m 2 = None \<or> (\<exists>w. group m 2 = Some w \<and> is_digits U w)"
    and c5: "group m 5 = None \<or> (\<exists>w. group m 5 = Some w \<and> is_digits U w)"
    and c6: "group m 6 = None \<or> (\<exists>w. group m 6 = Some w \<and> is_digits U w)"
    by auto
  from short have s: "case group m 2 of None \<Rightarrow> True | Some w \<Rightarrow> length w \<le> max_str_digits"
    "length g3 \<le> max_str_digits"
    "case group m 5 of None \<Rightarrow> True | Some w \<Rightarrow> length w \<le> max_str_digits"
    "case group m 6 of None \<Rightarrow> True | Some w \<Rightarrow> length w \<le> max_str_digits"
    by (simp_all add: g3)
  note p = int_or_group [OF c2 s(1), of 1]
  note b = int_or_group [OF c5 s(3), of 0]
  note a = int_or_group [OF c6 s(4), of 0]
  from py_float_decimal [OF g4(2)] obtain x where x: "py_float U g4 = Inr x" by blast
  have slash: "asc ''/'' = [47]" by (simp add: asc_def)
  have sp: "split (asc ''/'') nm = [nm]" unfolding slash by (rule split_no_sep [OF sl])
  have rec: "benchmark_record U m =
       Inr [(asc ''name'', S nm), (asc ''full_name'', S nm),
            (asc ''procs'', I (int_field U m 2 1)),
            (asc ''iterations'', I (digits_val U g3)), (asc ''ns_per_op'', F x),
            (asc ''bytes_per_op'', I (int_field U m 5 0)),
            (asc ''allocs_per_op'', I (int_field U m 6 0))]"
    by (simp add: benchmark_record_def g1 g3 g4 p b a x sp
        py_int_digits [OF g3(2) s(2)] dict_update_def del: One_nat_def)
  have "row_of_match U m
       [(asc ''name'', S nm), (asc ''full_name'', S nm),
        (asc ''procs'', I (int_field U m 2 1)),
        (asc ''iterations'', I (digits_val U g3)), (asc ''ns_per_op'', F x),
        (asc ''bytes_per_op'', I (int_field U m 5 0)),
        (asc ''allocs_per_op'', I (int_field U m 6 0))]"
    unfolding row_of_match_def using g1 g3(1) g4(1) x by blast
  with rec show ?thesis by blast
qed

lemma re_match_Some:
  "re_match U r s = Some m \<Longrightarrow> \<exists>j s'. (j, s', m) \<in> set (run U r (0, s, []))"
  by (auto simp: re_match_def split: list.splits)

text \<open>
  The name of a line that matches never has a \<open>/\<close>: the loop over the parts of the
  name after the first has nothing to read.
\<close>

lemma benchmark_record_matched:
  assumes "re_match U benchmark_pattern line = Some m"
  shows "\<exists>nm. group m 1 = Some nm \<and> 47 \<notin> set nm"
proof -
  from re_match_Some [OF assms] obtain j s' where
    "(j, s', m) \<in> set (run U benchmark_pattern (0, line, []))" by blast
  from bench_caps_groups [OF benchmark_caps [OF this]] show ?thesis by blast
qed

lemma benchmark_record_short:
  assumes "re_match U benchmark_pattern line = Some m" and "int_fields_short U line"
  shows "\<exists>row. benchmark_record U m = Inr row \<and> row_of_match U m row"
proof -
  from re_match_Some [OF assms(1)] obtain j s' where
    r: "(j, s', m) \<in> set (run U benchmark_pattern (0, line, []))" by blast
  from assms have "list_all (\<lambda>g. case group m g of None \<Rightarrow> True | Some d \<Rightarrow> length d \<le> max_str_digits)
                  [2, 3, 5, 6]"
    by (simp add: int_fields_short_def)
  from benchmark_record_caps [OF benchmark_caps [OF r] this] show ?thesis .
qed

lemma benchmark_lines_rows:
  assumes "\<forall>line \<in> set ls. int_fields_short U line"
  shows "\<exists>rows. benchmark_lines U ls acc = Inr (acc @ rows) \<and>
      list_all2 (\<lambda>line row. \<exists>m. re_match U benchmark_pattern line = Some m \<and> row_of_match U m row)
        (filter (\<lambda>line. re_match U benchmark_pattern line \<noteq> None) ls) rows"
  using assms
proof (induction ls arbitrary: acc)
  case Nil
  show ?case by simp
next
  case (Cons line ls)
  from Cons.prems have rest: "\<forall>line \<in> set ls. int_fields_short U line"
    and this_line: "int_fields_short U line" by simp_all
  show ?case
  proof (cases "re_match U benchmark_pattern line")
    case None
    with Cons.IH [OF rest, of acc] show ?thesis by simp
  next
    case (Some m)
    from benchmark_record_short [OF Some this_line] obtain row where
      row: "benchmark_record U m = Inr row" "row_of_match U m row" by blast
    from Cons.IH [OF rest, of "acc @ [row]"] obtain rows where
      r: "benchmark_lines U ls (acc @ [row]) = Inr ((acc @ [row]) @ rows)"
      "list_all2 (\<lambda>line row. \<exists>m. re_match U benchmark_pattern line = Some m \<and> row_of_match U m row)
        (filter (\<lambda>line. re_match U benchmark_pattern line \<noteq> None) ls) rows"
      by blast
    from Some row r have "benchmark_lines U (line # ls) acc = Inr (acc @ (row # rows)) \<and>
       list_all2 (\<lambda>line row. \<exists>m. re_match U benchmark_pattern line = Some m \<and> row_of_match U m row)
        (filter (\<lambda>line. re_match U benchmark_pattern line \<noteq> None) (line # ls)) (row # rows)"
      by simp
    then show ?thesis by blast
  qed
qed

lemmas text_ev = asc_def split_def split_max_def is_word_def is_digit_def is_space_def
  digit_val_def


lemmas float_ev = round_q_def round_pos_def binade_def scale_def round_even_def Let_def
  bit_length.simps canon.simps float_of_int_def fdiv_int_def fmul_int_def

text \<open>
  Claim C5, as amended. For every text in which no integer of a matching line has more
  than 4300 digits, the benchmark parser returns (it does not raise); it passes over each
  line that does not match its pattern, and yields, in the order of the lines, exactly
  one record for each line that matches, with the fields of that line: the name, the
  parallelism or 1, the iterations, the time, and the bytes and allocations or 0.
  The pattern is the parser's own; a name with a \<open>/key=value\<close> part is not matched by
  it (claim C4).
\<close>

theorem benchmark_rows_of_matching_lines:
  assumes "\<forall>line \<in> set (split [10] content). int_fields_short U line"
  shows "\<exists>rows. parse_benchmark_content U content = Inr rows \<and>
     list_all2 (\<lambda>line row. \<exists>m. re_match U benchmark_pattern line = Some m \<and> row_of_match U m row)
       (filter (\<lambda>line. re_match U benchmark_pattern line \<noteq> None) (split [10] content)) rows"
  using benchmark_lines_rows [OF assms, of "[]"]
  by (simp add: parse_benchmark_content_def)

text \<open>
  The file of five lines with one of them cut off yields exactly four records.
\<close>

theorem benchmark_rows_of_matching_lines_witness:
  "list_all (int_fields_short example_unicode) (split [10] benchmark_file_example) \<and>
   (\<exists>rows. parse_benchmark_content example_unicode benchmark_file_example = Inr rows \<and>
      length rows = 4)"
proof -
  have s: "\<forall>line \<in> set (split [10] benchmark_file_example). int_fields_short example_unicode line"
    by (simp add: benchmark_file_example_def int_fields_short_def re_match_def
        benchmark_pattern_def group_def max_str_digits_def text_ev)
  have n: "length (filter (\<lambda>line. re_match example_unicode benchmark_pattern line \<noteq> None)
             (split [10] benchmark_file_example)) = 4"
    by (simp add: benchmark_file_example_def re_match_def benchmark_pattern_def text_ev)
  from benchmark_rows_of_matching_lines [OF s] obtain rows where
    r: "parse_benchmark_content example_unicode benchmark_file_example = Inr rows"
    and l: "list_all2 (\<lambda>line row. \<exists>m. re_match example_unicode benchmark_pattern line = Some m \<and>
                row_of_match example_unicode m row)
       (filter (\<lambda>line. re_match example_unicode benchmark_pattern line \<noteq> None)
          (split [10] benchmark_file_example)) rows"
    by blast
  from list_all2_lengthD [OF l] n have "length rows = 4" by simp
  with s r show ?thesis by (auto simp: list_all_iff)
qed

text \<open>
  The claim as it was stated has the parser never raise and give a record for every
  matching line. A line whose iteration count has 4301 digits matches the pattern, and
  \<open>int\<close> raises \<open>ValueError\<close> on the count: the parse raises.
\<close>

lemma first_greedy_run:
  assumes "list_all p ds" and "rest = [] \<or> \<not> p (hd rest)"
    and "K (i + length ds, rest, c) \<noteq> None"
  shows "first_greedy p i (ds @ rest) c K = K (i + length ds, rest, c)"
  using assms
proof (induction ds arbitrary: i)
  case Nil
  then show ?case
    by (cases rest) (simp_all add: first_greedy_Nil first_greedy_Cons split: option.splits)
next
  case (Cons x xs)
  from Cons.prems have "K (Suc i + length xs, rest, c) \<noteq> None" by simp
  with Cons.IH [of "Suc i"] Cons.prems
  have "first_greedy p (Suc i) (xs @ rest) c K = K (Suc i + length xs, rest, c)" by simp
  with Cons.prems show ?case
    by (auto simp: first_greedy_Cons split: option.splits)
qed

lemma ones_4300:
  "list_all (in_cls U Digit) ones_4300" "length ones_4300 = 4300" "10 \<notin> set ones_4300"
  by (simp_all add: ones_4300_def list_all_iff is_digit_def)

lemma long_benchmark_line_match:
  "re_match U benchmark_pattern long_benchmark_line =
     Some [(4, asc ''1''), (3, 49 # ones_4300), (1, asc ''BenchmarkBig'')]"
  by (simp add: long_benchmark_line_def benchmark_pattern_def text_ev match_ev
      first_greedy_run ones_4300 del: matcher_simps_off)

theorem benchmark_long_integer_counterexample:
  "parse_benchmark_content example_unicode long_benchmark_line = Inl ValueError"
proof -
  have "10 \<notin> set long_benchmark_line"
    by (simp add: long_benchmark_line_def ones_4300 asc_def)
  then have nl: "split [10] long_benchmark_line = [long_benchmark_line]"
    by (rule split_no_sep)
  have i: "py_int example_unicode (49 # ones_4300) = Inl ValueError"
    by (rule py_int_long) (simp add: ones_4300 max_str_digits_def)
  have r: "benchmark_record example_unicode
             [(4, asc ''1''), (3, 49 # ones_4300), (1, asc ''BenchmarkBig'')] =
           Inl ValueError"
    by (simp add: benchmark_record_def group_def int_or_def i text_ev)
  show ?thesis
    by (simp add: parse_benchmark_content_def nl long_benchmark_line_match r del: One_nat_def)
qed

text \<open>
  Claim C4. A benchmark line whose name carries a \<open>/key=value\<close> segment should give a
  record with that parameter and the base name as its group. The parser gives no record
  at all for such a line: \<open>\w+\<close> in the pattern stops at the \<open>/\<close>, so the line does not
  match (and, by \<open>benchmark_record_matched\<close>, the name of a line that does match never
  has a \<open>/\<close>: the loop that reads the parameters has nothing to read).
\<close>

theorem benchmark_parameter_line_dropped:
  "parse_benchmark_content U (asc ''BenchmarkGet/size=100-8   1000000   123.4 ns/op'') = Inr []"
  by (simp add: parse_benchmark_content_def re_match_def benchmark_pattern_def text_ev)

section \<open>The hit ratio parser\<close>

lemmas label_ev = label_result_def label_total_def label_hits_def label_misses_def
  label_hit_ratio_def label_evictions_def label_eviction_ratio_def label_duration_def micro_def

subsection \<open>Durations\<close>

lemma split_acc_suffix_sep:
  "x \<notin> set a \<Longrightarrow> split_acc (x # xs) None acc (a @ x # xs) = [rev acc @ a, []]"
  by (induction a arbitrary: acc) auto

lemma remove_all_suffix: "x \<notin> set a \<Longrightarrow> remove_all (x # xs) (a @ x # xs) = a"
  by (simp add: remove_all_def split_def split_acc_suffix_sep)

lemma not_sublist_elem: "x \<notin> set ys \<Longrightarrow> \<not> sublist (x # xs) ys"
  by (auto dest: set_mono_sublist)

text \<open>
  Claim C6. For every duration string of the pattern (a number made of digits and dots,
  then one of the units), the unit is found by looking for \<open>\<mu>s\<close>, \<open>ns\<close>, \<open>ms\<close>,
  \<open>s\<close> in this order, and the number is brought to milliseconds: divided by 1000,
  divided by 1000000, kept, multiplied by 1000.
\<close>

theorem duration_units:
  assumes "num_chars num"
  shows "parse_duration U (num @ [micro, 115]) =
           ebind (py_float U num) (\<lambda>x. ebind (fdiv_int x 1000) (\<lambda>y. Inr (F y))) \<and>
         parse_duration U (num @ asc ''ns'') =
           ebind (py_float U num) (\<lambda>x. ebind (fdiv_int x 1000000) (\<lambda>y. Inr (F y))) \<and>
         parse_duration U (num @ asc ''ms'') = ebind (py_float U num) (\<lambda>x. Inr (F x)) \<and>
         parse_duration U (num @ asc ''s'') =
           ebind (py_float U num) (\<lambda>x. ebind (fmul_int x 1000) (\<lambda>y. Inr (F y)))"
proof -
  from assms have n: "micro \<notin> set num" "110 \<notin> set num" "109 \<notin> set num" "115 \<notin> set num"
    by (auto simp: num_chars_def micro_def)
  have a: "asc ''ns'' = [110, 115]" "asc ''ms'' = [109, 115]" "asc ''s'' = [115]"
    by (simp_all add: asc_def)
  have "parse_duration U (num @ [micro, 115]) =
           ebind (py_float U num) (\<lambda>x. ebind (fdiv_int x 1000) (\<lambda>y. Inr (F y)))"
    using n by (simp add: parse_duration_def a remove_all_suffix)
  moreover have "parse_duration U (num @ asc ''ns'') =
           ebind (py_float U num) (\<lambda>x. ebind (fdiv_int x 1000000) (\<lambda>y. Inr (F y)))"
    using n unfolding a
    by (simp add: parse_duration_def a remove_all_suffix not_sublist_elem micro_def)
  moreover have "parse_duration U (num @ asc ''ms'') = ebind (py_float U num) (\<lambda>x. Inr (F x))"
    using n unfolding a
    by (simp add: parse_duration_def a remove_all_suffix not_sublist_elem micro_def)
  moreover have "parse_duration U (num @ asc ''s'') =
           ebind (py_float U num) (\<lambda>x. ebind (fmul_int x 1000) (\<lambda>y. Inr (F y)))"
    using n unfolding a
    by (simp add: parse_duration_def a remove_all_suffix not_sublist_elem micro_def)
  ultimately show ?thesis by blast
qed

text \<open>
  The four durations of the claim: \<open>500\<mu>s\<close> is 0.5 (\<open>Fin 1 (- 1)\<close>), \<open>2s\<close> is 2000.0
  (\<open>Fin 125 4\<close>), \<open>10ns\<close> is the float that the literal \<open>0.00001\<close> denotes, and
  \<open>123.4ms\<close> the float that the literal \<open>123.4\<close> denotes.
\<close>

theorem duration_units_witness:
  "num_chars (asc ''500'') \<and> num_chars (asc ''2'') \<and> num_chars (asc ''10'') \<and>
   num_chars (asc ''123.4'') \<and>
   parse_duration example_unicode (asc ''500'' @ [micro, 115]) = Inr (F (Fin 1 (- 1))) \<and>
   py_float example_unicode (asc ''0.5'') = Inr (Fin 1 (- 1)) \<and>
   parse_duration example_unicode (asc ''2'' @ asc ''s'') = Inr (F (Fin 125 4)) \<and>
   py_float example_unicode (asc ''2000.0'') = Inr (Fin 125 4) \<and>
   parse_duration example_unicode (asc ''10'' @ asc ''ns'') = Inr (F (round_q 1 100000)) \<and>
   py_float example_unicode (asc ''0.00001'') = Inr (round_q 1 100000) \<and>
   parse_duration example_unicode (asc ''123.4'' @ asc ''ms'') = Inr (F (round_q 1234 10)) \<and>
   py_float example_unicode (asc ''123.4'') = Inr (round_q 1234 10)"
proof -
  have c: "num_chars (asc ''500'')" "num_chars (asc ''2'')" "num_chars (asc ''10'')"
    "num_chars (asc ''123.4'')"
    by (simp_all add: num_chars_def asc_def)
  have f: "py_float example_unicode (asc ''500'') = Inr (Fin 125 2)"
    "py_float example_unicode (asc ''2'') = Inr (Fin 1 1)"
    "py_float example_unicode (asc ''10'') = Inr (Fin 5 1)"
    "py_float example_unicode (asc ''123.4'') = Inr (round_q 1234 10)"
    "py_float example_unicode (asc ''0.5'') = Inr (Fin 1 (- 1))"
    "py_float example_unicode (asc ''2000.0'') = Inr (Fin 125 4)"
    "py_float example_unicode (asc ''0.00001'') = Inr (round_q 1 100000)"
    by (simp_all add: py_float_def digits_val_def text_ev float_ev)
  have d: "fdiv_int (Fin 125 2) 1000 = Inr (Fin 1 (- 1))"
    "fmul_int (Fin 1 1) 1000 = Inr (Fin 125 4)"
    "fdiv_int (Fin 5 1) 1000000 = Inr (round_q 1 100000)"
    by (simp_all add: float_ev)
  from duration_units [OF c(1), of example_unicode] duration_units [OF c(2), of example_unicode]
    duration_units [OF c(3), of example_unicode] duration_units [OF c(4), of example_unicode]
  show ?thesis by (simp add: c f d)
qed


subsection \<open>The example transcripts\<close>

lemma example_numbers:
  "py_int U (asc ''1000'') = Inr 1000" "py_int U (asc ''800'') = Inr 800"
  "py_int U (asc ''200'') = Inr 200" "py_int U (asc ''50'') = Inr 50"
  "py_int U (asc ''600'') = Inr 600" "py_int U (asc ''400'') = Inr 400"
  "py_int U (asc ''70'') = Inr 70"
  "py_float U (asc ''80.0'') = Inr (Fin 5 4)" "py_float U (asc ''5.0'') = Inr (Fin 5 0)"
  "py_float U (asc ''60.0'') = Inr (Fin 15 2)" "py_float U (asc ''7.0'') = Inr (Fin 7 0)"
  by (simp_all add: py_int_def py_float_def digits_val_def max_str_digits_def text_ev float_ev)

lemma example_durations:
  "parse_duration U (asc ''123.4ms'') = Inr (F (Fin 4341751515761869 (- 45)))"
  "parse_duration U (asc ''2s'') = Inr (F (Fin 125 4))"
  by (simp_all add: parse_duration_def remove_all_def sublist_code py_float_def digits_val_def
      text_ev float_ev micro_def)

text \<open>The record of the first example block, for a file in which its context is \<open>ctx\<close>.\<close>

lemma block_a_record:
  assumes "test_context content 1000 = ctx"
  shows "hitratio_record U content
           [(7, asc ''123.4ms''), (6, asc ''5.0''), (5, asc ''50''), (4, asc ''80.0''),
            (3, asc ''200''), (2, asc ''800''), (1, asc ''1000'')] =
         ebind (find_cache_size U ctx) (\<lambda>cs.
           Inr \<lparr>test_name = find_test_name U ctx, cache_size = cs,
                distribution = find_distribution ctx, policy = find_policy ctx,
                total_operations = 1000, hits = 800, misses = 200, hit_ratio = Fin 5 4,
                evictions = 50, eviction_ratio = Fin 5 0,
                duration_ms = F (Fin 4341751515761869 (- 45))\<rparr>)"
  by (simp add: hitratio_record_def group_def example_numbers example_durations assms Let_def
      del: One_nat_def)

lemma block_b_record:
  assumes "test_context content 1000 = ctx"
  shows "hitratio_record U content
           [(7, asc ''2s''), (6, asc ''7.0''), (5, asc ''70''), (4, asc ''60.0''),
            (3, asc ''400''), (2, asc ''600''), (1, asc ''1000'')] =
         ebind (find_cache_size U ctx) (\<lambda>cs.
           Inr \<lparr>test_name = find_test_name U ctx, cache_size = cs,
                distribution = find_distribution ctx, policy = find_policy ctx,
                total_operations = 1000, hits = 600, misses = 400, hit_ratio = Fin 15 2,
                evictions = 70, eviction_ratio = Fin 7 0,
                duration_ms = F (Fin 125 4)\<rparr>)"
  by (simp add: hitratio_record_def group_def example_numbers example_durations assms Let_def
      del: One_nat_def)

lemma context_a_parameters:
  "find_test_name U context_a = Some (asc ''ZipfLow_LRU_Size5000'')"
  "find_distribution context_a = Some (asc ''zipf-1.07'')"
  "find_policy context_a = Some (asc ''lru'')"
  "find_cache_size U context_a = Inr (Some 5000)"
     apply (simp add: context_a_def find_test_name_def test_name_pattern_def group_def
      label_ev text_ev match_ev del: matcher_simps_off)
    apply (simp add: context_a_def find_distribution_def sublist_code label_ev text_ev)
   apply (simp add: context_a_def find_policy_def sublist_code label_ev text_ev)
  apply (simp add: context_a_def find_cache_size_def size_pattern_def group_def py_int_def
      digits_val_def max_str_digits_def label_ev text_ev match_ev del: matcher_simps_off)
  done

lemma transcript_one_matches:
  "findall U hitratio_pattern transcript_one =
     [[(7, asc ''123.4ms''), (6, asc ''5.0''), (5, asc ''50''), (4, asc ''80.0''),
       (3, asc ''200''), (2, asc ''800''), (1, asc ''1000'')]]"
  by (simp add: transcript_one_def stats_block_a_def hitratio_pattern_def
      label_ev text_ev match_ev del: matcher_simps_off)

lemma transcript_one_context: "test_context transcript_one 1000 = context_a"
  by (simp add: context_a_def transcript_one_def stats_block_a_def test_context_def
      str_of_int_def digits_of.simps label_ev text_ev)

text \<open>
  The example of claim C2: one block under \<open>TestZipfLow_LRU_Size5000\<close> gives the
  distribution \<open>zipf-1.07\<close>, the policy \<open>lru\<close>, the cache size 5000 and the duration
  of the literal \<open>123.4\<close>.
\<close>

lemma transcript_one_parsed:
  "parse_test_content U transcript_one =
     Inr [\<lparr>test_name = Some (asc ''ZipfLow_LRU_Size5000''), cache_size = Some 5000,
           distribution = Some (asc ''zipf-1.07''), policy = Some (asc ''lru''),
           total_operations = 1000, hits = 800, misses = 200, hit_ratio = Fin 5 4,
           evictions = 50, eviction_ratio = Fin 5 0,
           duration_ms = F (Fin 4341751515761869 (- 45))\<rparr>]"
  by (simp add: parse_test_content_def transcript_one_matches
      block_a_record [OF transcript_one_context] context_a_parameters del: One_nat_def)

lemma transcript_two_matches:
  "findall U hitratio_pattern transcript_two =
     [[(7, asc ''123.4ms''), (6, asc ''5.0''), (5, asc ''50''), (4, asc ''80.0''),
       (3, asc ''200''), (2, asc ''800''), (1, asc ''1000'')],
      [(7, asc ''2s''), (6, asc ''7.0''), (5, asc ''70''), (4, asc ''60.0''),
       (3, asc ''400''), (2, asc ''600''), (1, asc ''1000'')]]"
  by (simp add: transcript_two_def stats_block_a_def stats_block_b_def hitratio_pattern_def
      label_ev text_ev match_ev del: matcher_simps_off)

lemma transcript_two_context: "test_context transcript_two 1000 = context_a"
  by (simp add: context_a_def transcript_two_def stats_block_a_def stats_block_b_def
      test_context_def str_of_int_def digits_of.simps label_ev text_ev)

text \<open>
  Claim C2. The parameters of a block should come from the text just before that block,
  back to the nearest \<open>=== RUN\<close>. The parser looks them up before the first occurrence
  of the block's number of operations in the whole file: of two tests with 1000
  operations each, the second one (\<open>TestUniform_LFU_Size100\<close>, 600 hits) is given the
  distribution, the policy and the cache size of the first.
\<close>

theorem second_block_gets_first_context:
  "parse_test_content U transcript_two =
     Inr [\<lparr>test_name = Some (asc ''ZipfLow_LRU_Size5000''), cache_size = Some 5000,
           distribution = Some (asc ''zipf-1.07''), policy = Some (asc ''lru''),
           total_operations = 1000, hits = 800, misses = 200, hit_ratio = Fin 5 4,
           evictions = 50, eviction_ratio = Fin 5 0,
           duration_ms = F (Fin 4341751515761869 (- 45))\<rparr>,
          \<lparr>test_name = Some (asc ''ZipfLow_LRU_Size5000''), cache_size = Some 5000,
           distribution = Some (asc ''zipf-1.07''), policy = Some (asc ''lru''),
           total_operations = 1000, hits = 600, misses = 400, hit_ratio = Fin 15 2,
           evictions = 70, eviction_ratio = Fin 7 0,
           duration_ms = F (Fin 125 4)\<rparr>]"
  by (simp add: parse_test_content_def transcript_two_matches
      block_a_record [OF transcript_two_context] block_b_record [OF transcript_two_context]
      context_a_parameters del: One_nat_def)

subsection \<open>The cache size\<close>

lemma ebind_Inr_iff: "(ebind x f = Inr r) = (\<exists>v. x = Inr v \<and> f v = Inr r)"
  by (cases x) simp_all

lemma need_Inr_iff: "(need e x = Inr v) = (x = Some v)"
  by (cases x) simp_all

lemma py_int_Inr: "py_int U d = Inr n \<Longrightarrow> n = digits_val U d \<and> 0 \<le> n"
  by (auto simp: py_int_def digits_val_def split: if_splits)

lemma find_cache_size_cases:
  assumes "find_cache_size U ctx = Inr cs"
  shows "\<exists>n. cs = Some n \<and> 0 \<le> n \<and>
           (n = 1000 \<or> n = 100000 \<or> n = 10000 \<or>
            (\<exists>m d. re_search U size_pattern ctx = Some m \<and> group m 1 = Some d \<and>
                    n = digits_val U d))"
proof (cases "re_search U size_pattern ctx")
  case None
  with assms show ?thesis by (auto simp: find_cache_size_def split: if_splits)
next
  case (Some m)
  with assms obtain d n where "group m 1 = Some d" "py_int U d = Inr n" "cs = Some n"
    by (auto simp: find_cache_size_def ebind_Inr_iff need_Inr_iff)
  with Some py_int_Inr [of U d n] show ?thesis by auto
qed

lemma hitratio_record_cache_size:
  assumes "hitratio_record U content m = Inr r"
  shows "\<exists>n. cache_size r = Some n \<and> 0 \<le> n \<and>
           (n = 1000 \<or> n = 100000 \<or> n = 10000 \<or>
            (\<exists>m d. re_search U size_pattern (test_context content (total_operations r)) = Some m \<and>
                    group m 1 = Some d \<and> n = digits_val U d))"
proof -
  from assms obtain total cs where
    s: "find_cache_size U (test_context content total) = Inr cs"
    and r: "cache_size r = cs" "total_operations r = total"
    by (auto simp: hitratio_record_def ebind_Inr_iff Let_def)
  from find_cache_size_cases [OF s] r show ?thesis by simp
qed

lemma hitratio_matches_rows:
  "hitratio_matches U content ms acc = Inr rows \<Longrightarrow> r \<in> set rows \<Longrightarrow>
   r \<in> set acc \<or> (\<exists>m \<in> set ms. hitratio_record U content m = Inr r)"
proof (induction ms arbitrary: acc)
  case Nil
  then show ?case by simp
next
  case (Cons m ms)
  from Cons.prems(1) obtain x where
    x: "hitratio_record U content m = Inr x"
    and rest: "hitratio_matches U content ms (acc @ [x]) = Inr rows"
    by (auto simp: ebind_Inr_iff)
  from Cons.IH [OF rest Cons.prems(2)] x show ?case by auto
qed

text \<open>
  Claim C10, as amended. In every record of the hit ratio parser the cache size is a
  number, never null, and not negative: 1000, 100000 or 10000, or the value of the digits
  of the first \<open>Size<digits>\<close> in the context of the record.
\<close>

theorem cache_size_never_null:
  assumes "parse_test_content U content = Inr rows" and "r \<in> set rows"
  shows "\<exists>n. cache_size r = Some n \<and> 0 \<le> n \<and>
           (n = 1000 \<or> n = 100000 \<or> n = 10000 \<or>
            (\<exists>m d. re_search U size_pattern (test_context content (total_operations r)) = Some m \<and>
                    group m 1 = Some d \<and> n = digits_val U d))"
proof -
  from assms have "\<exists>m. hitratio_record U content m = Inr r"
    using hitratio_matches_rows [of U content _ "[]" rows r]
    by (auto simp: parse_test_content_def)
  then show ?thesis using hitratio_record_cache_size by blast
qed

lemma transcript_plain_parsed:
  "parse_test_content example_unicode transcript_plain =
     Inr [\<lparr>test_name = Some (asc ''Mixed''), cache_size = Some 10000,
           distribution = None, policy = None,
           total_operations = 1000, hits = 800, misses = 200, hit_ratio = Fin 5 4,
           evictions = 50, eviction_ratio = Fin 5 0,
           duration_ms = F (Fin 4341751515761869 (- 45))\<rparr>]"
proof -
  have m: "findall example_unicode hitratio_pattern transcript_plain =
     [[(7, asc ''123.4ms''), (6, asc ''5.0''), (5, asc ''50''), (4, asc ''80.0''),
       (3, asc ''200''), (2, asc ''800''), (1, asc ''1000'')]]"
    by (simp add: transcript_plain_def stats_block_a_def hitratio_pattern_def
        label_ev text_ev match_ev del: matcher_simps_off)
  have c: "test_context transcript_plain 1000 = context_plain"
    by (simp add: context_plain_def transcript_plain_def stats_block_a_def test_context_def
        str_of_int_def digits_of.simps label_ev text_ev)
  have p: "find_test_name example_unicode context_plain = Some (asc ''Mixed'')"
    "find_distribution context_plain = None"
    "find_policy context_plain = None"
    "find_cache_size example_unicode context_plain = Inr (Some 10000)"
       apply (simp add: context_plain_def find_test_name_def test_name_pattern_def group_def
        label_ev text_ev match_ev del: matcher_simps_off)
      apply (simp add: context_plain_def find_distribution_def sublist_code label_ev text_ev)
     apply (simp add: context_plain_def find_policy_def sublist_code label_ev text_ev)
    apply (simp add: context_plain_def find_cache_size_def size_pattern_def group_def
        lower_def lower_char_def example_unicode_def sublist_code
        label_ev text_ev match_ev del: matcher_simps_off)
    done
  show ?thesis
    by (simp add: parse_test_content_def m block_a_record [OF c] p del: One_nat_def)
qed

text \<open>
  A test that names neither distribution nor policy nor size: both are null and the
  cache size is the default 10000.
\<close>

theorem cache_size_never_null_witness:
  "\<exists>r. parse_test_content example_unicode transcript_plain = Inr [r] \<and>
     distribution r = None \<and> policy r = None \<and> cache_size r = Some 10000 \<and>
     (\<exists>n. cache_size r = Some n \<and> 0 \<le> n \<and>
           (n = 1000 \<or> n = 100000 \<or> n = 10000 \<or>
            (\<exists>m d. re_search example_unicode size_pattern
                      (test_context transcript_plain (total_operations r)) = Some m \<and>
                    group m 1 = Some d \<and> n = digits_val example_unicode d)))"
  using cache_size_never_null [OF transcript_plain_parsed] transcript_plain_parsed
  by simp

text \<open>
  The claim as it was stated asks for a positive cache size: a test named with \<open>Size0\<close>
  gives the cache size 0.
\<close>

theorem cache_size_zero_counterexample:
  "parse_test_content example_unicode transcript_size_zero =
     Inr [\<lparr>test_name = Some (asc ''Empty_Size0''), cache_size = Some 0,
           distribution = None, policy = None,
           total_operations = 1000, hits = 800, misses = 200, hit_ratio = Fin 5 4,
           evictions = 50, eviction_ratio = Fin 5 0,
           duration_ms = F (Fin 4341751515761869 (- 45))\<rparr>]"
proof -
  have m: "findall example_unicode hitratio_pattern transcript_size_zero =
     [[(7, asc ''123.4ms''), (6, asc ''5.0''), (5, asc ''50''), (4, asc ''80.0''),
       (3, asc ''200''), (2, asc ''800''), (1, asc ''1000'')]]"
    by (simp add: transcript_size_zero_def stats_block_a_def hitratio_pattern_def
        label_ev text_ev match_ev del: matcher_simps_off)
  have c: "test_context transcript_size_zero 1000 = context_size_zero"
    by (simp add: context_size_zero_def transcript_size_zero_def stats_block_a_def
        test_context_def str_of_int_def digits_of.simps label_ev text_ev)
  have p: "find_test_name example_unicode context_size_zero = Some (asc ''Empty_Size0'')"
    "find_distribution context_size_zero = None"
    "find_policy context_size_zero = None"
    "find_cache_size example_unicode context_size_zero = Inr (Some 0)"
       apply (simp add: context_size_zero_def find_test_name_def test_name_pattern_def group_def
        label_ev text_ev match_ev del: matcher_simps_off)
      apply (simp add: context_size_zero_def find_distribution_def sublist_code label_ev text_ev)
     apply (simp add: context_size_zero_def find_policy_def sublist_code label_ev text_ev)
    apply (simp add: context_size_zero_def find_cache_size_def size_pattern_def group_def
        py_int_def digits_val_def max_str_digits_def label_ev text_ev match_ev del: matcher_simps_off)
    done
  show ?thesis
    by (simp add: parse_test_content_def m block_a_record [OF c] p del: One_nat_def)
qed

section \<open>The concurrency analyzer\<close>

subsection \<open>The success rate\<close>

lemma float_literals: "float_of_int 1 = Inr (Fin 1 0)" "float_of_int 100 = Inr (Fin 25 2)"
  "float_of_int 0 = Inr (Fin 0 0)"
  by (simp_all add: float_ev)

lemma success_rate_of_spec:
  assumes "success_rate_of item = Inr r"
  shows "\<exists>s. success_field item = Some s \<and> hundred_times_one_minus s = Some r"
proof (cases item)
  case (JObj d)
  define s where "s = (case map_of d (asc ''success'') of None \<Rightarrow> JInt 0 | Some v \<Rightarrow> v)"
  from assms JObj have r: "ebind (int_minus 1 s) (int_times 100) = Inr r"
    by (simp add: success_rate_of_def s_def)
  have f: "success_field item = Some s"
    by (simp add: success_field_def JObj s_def)
  from r have "hundred_times_one_minus s = Some r"
    by (cases s)
      (auto simp: int_minus_def int_times_def hundred_times_one_minus_def float_literals
        ebind_Inr_iff split: num.splits)
  with f show ?thesis by blast
qed (use assms in \<open>simp_all add: success_rate_of_def\<close>)

lemma vegeta_record_success:
  assumes "vegeta_record U fn item = Inr row"
  shows "success_rate_of item = Inr (success_rate row)"
  using assms
  by (auto simp: vegeta_record_def ebind_Inr_iff test_params.defs vrow.defs)

lemma vegeta_items_rows:
  "vegeta_items U fn items acc = Inr rows \<Longrightarrow>
   \<exists>new. rows = acc @ new \<and> list_all2 (\<lambda>item row. vegeta_record U fn item = Inr row) items new"
proof (induction items arbitrary: acc)
  case Nil
  then show ?case by simp
next
  case (Cons item items)
  from Cons.prems obtain x where x: "vegeta_record U fn item = Inr x"
    and rest: "vegeta_items U fn items (acc @ [x]) = Inr rows"
    by (auto simp: ebind_Inr_iff)
  from Cons.IH [OF rest] obtain new where "rows = (acc @ [x]) @ new"
    "list_all2 (\<lambda>item row. vegeta_record U fn item = Inr row) items new" by blast
  with x show ?case by (intro exI [of _ "x # new"]) simp
qed

text \<open>
  Claim C1, as amended. Every row that \<open>parse_vegeta_results\<close> gives comes from a
  result object, in the order of the objects, and its \<open>success_rate\<close> is 100 times
  (1 minus the \<open>success\<close> field of the object, 0 when it has none), computed in the
  arithmetic of the field: exactly for an \<open>int\<close>, with the two roundings of double
  arithmetic for a float.
\<close>

theorem success_rate_is_failure_percentage:
  assumes "parse_vegeta_content U loads filename content = Inr rows"
  shows "\<exists>items. vegeta_data loads content = Inr items \<and>
           list_all2 (\<lambda>item row. \<exists>s. success_field item = Some s \<and>
                        hundred_times_one_minus s = Some (success_rate row)) items rows"
proof -
  from assms obtain items where d: "vegeta_data loads content = Inr items"
    and i: "vegeta_items U filename items [] = Inr rows"
    by (auto simp: parse_vegeta_content_def ebind_Inr_iff)
  from vegeta_items_rows [OF i]
  have "list_all2 (\<lambda>item row. vegeta_record U filename item = Inr row) items rows" by simp
  then have "list_all2 (\<lambda>item row. \<exists>s. success_field item = Some s \<and>
                        hundred_times_one_minus s = Some (success_rate row)) items rows"
    by (rule list_all2_mono) (blast dest: vegeta_record_success success_rate_of_spec)
  with d show ?thesis by blast
qed

lemma example_params:
  "extract_test_params example_unicode (asc ''load.json'') (JObj d) =
     ebind (get (JObj d) (asc ''rate'') (JInt 0)) (\<lambda>trate.
     ebind (ebind (get (JObj d) (asc ''duration'') (JInt 0)) (\<lambda>x. truediv x f1e9)) (\<lambda>tdur.
       Inr \<lparr>concurrency = 1, target_rate = trate, target_duration = Some (NF tdur),
            cache_config = asc ''default'', test_date = asc ''00000000''\<rparr>))"
proof -
  have b: "basename (asc ''load.json'') = asc ''load.json''"
    by (simp add: basename_def text_ev)
  have s: "re_search example_unicode concurrency_pattern (asc ''load.json'') = None"
    "re_search example_unicode rate_pattern (asc ''load.json'') = None"
    "re_search example_unicode duration_pattern (asc ''load.json'') = None"
    "re_search example_unicode cache_pattern (asc ''load.json'') = None"
    "re_search example_unicode date_pattern (asc ''load.json'') = None"
    by (simp_all add: concurrency_pattern_def rate_pattern_def duration_pattern_def
        cache_pattern_def date_pattern_def example_unicode_def text_ev match_ev
        del: matcher_simps_off)
  show ?thesis
    by (simp add: extract_test_params_def b s Let_def ebind_def split: sum.splits)
qed

lemma zero_div: "truediv (JInt 0) f1e6 = Inr (Fin 0 0)" "truediv (JInt 0) f1e9 = Inr (Fin 0 0)"
  by (simp_all add: truediv_def f1e6_def f1e9_def float_ev)

lemma example_success:
  "success_rate_of (JObj [(asc ''success'', JFloat (round_q 95 100))]) =
     Inr (NF (Fin 5629499534213125 (- 50)))"
  "success_rate_of (JObj []) = Inr (NI 100)"
  by (simp_all add: success_rate_of_def int_minus_def int_times_def fsub_def asc_def float_ev)

lemma example_get:
  "get (JObj [(asc ''success'', v)]) (asc ''rate'') d = Inr d"
  "get (JObj [(asc ''success'', v)]) (asc ''duration'') d = Inr d"
  "get (JObj [(asc ''success'', v)]) (asc ''latencies'') d = Inr d"
  "get (JObj [(asc ''success'', v)]) (asc ''throughput'') d = Inr d"
  "get (JObj [(asc ''success'', v)]) (asc ''requests'') d = Inr d"
  "get (JObj [(asc ''success'', v)]) (asc ''errors'') d = Inr d"
  "get (JObj []) k d = Inr d"
  by (simp_all add: asc_def)

lemma example_records:
  "vegeta_record example_unicode (asc ''load.json'')
     (JObj [(asc ''success'', JFloat (round_q 95 100))]) =
   Inr (empty_row (NF (Fin 5629499534213125 (- 50))))"
  "vegeta_record example_unicode (asc ''load.json'') (JObj []) = Inr (empty_row (NI 100))"
  by (simp_all add: vegeta_record_def example_params example_get example_success latency_def
      zero_div empty_row_def test_params.defs vrow.defs del: get.simps)

lemma example_loads:
  "loads_example payload_095 = Inr (JObj [(asc ''success'', JFloat (round_q 95 100))])"
  "loads_example (asc ''{}'') = Inr (JObj [])"
  "loads_example (asc ''{broken'') = Inl JSONDecodeError"
  "loads_example ndjson_broken = Inl JSONDecodeError"
  by (simp_all add: loads_example_def payload_095_def ndjson_broken_def quoted_def asc_def)

lemma payload_empty_parsed:
  "parse_vegeta_content example_unicode loads_example (asc ''load.json'') (asc ''{}'') =
     Inr [empty_row (NI 100)]"
  by (simp add: parse_vegeta_content_def vegeta_data_def example_loads example_records)

text \<open>
  A payload with no \<open>success\<close> field: the rate is the integer 100.
\<close>

theorem success_rate_is_failure_percentage_witness:
  "parse_vegeta_content example_unicode loads_example (asc ''load.json'') (asc ''{}'') =
     Inr [empty_row (NI 100)] \<and>
   vegeta_data loads_example (asc ''{}'') = Inr [JObj []] \<and>
   success_field (JObj []) = Some (JInt 0) \<and>
   hundred_times_one_minus (JInt 0) = Some (success_rate (empty_row (NI 100))) \<and>
   success_rate (empty_row (NI 100)) = NI 100"
  using success_rate_is_failure_percentage [OF payload_empty_parsed]
  by (simp add: payload_empty_parsed vegeta_data_def example_loads success_field_def
      hundred_times_one_minus_def empty_row_def)

text \<open>
  The payload of the claim with \<open>success = 0.95\<close>: the rate is the double
  \<open>5629499534213125 * 2 ^ - 50\<close>, which prints as \<open>5.000000000000004\<close>, and not
  \<open>5.0\<close>, which is \<open>Fin 5 0\<close>: \<open>1 - 0.95\<close> is rounded to a double a little above
  0.05 before it is multiplied.
\<close>

theorem success_rate_not_five_counterexample:
  "parse_vegeta_content example_unicode loads_example (asc ''load.json'') payload_095 =
     Inr [empty_row (NF (Fin 5629499534213125 (- 50)))] \<and>
   success_rate (empty_row (NF (Fin 5629499534213125 (- 50)))) \<noteq> NF (Fin 5 0)"
  by (simp add: parse_vegeta_content_def vegeta_data_def example_loads example_records
      empty_row_def)

subsection \<open>The encodings of a result file\<close>

lemma vegeta_lines_values:
  "list_all (decodes loads) (filter nonblank ls) \<Longrightarrow>
   vegeta_lines loads ls acc = Inr (acc @ line_values loads ls)"
proof (induction ls arbitrary: acc)
  case Nil
  then show ?case by (simp add: line_values_def)
next
  case (Cons l ls)
  show ?case
  proof (cases "strip l = []")
    case True
    with Cons show ?thesis by (simp add: line_values_def nonblank_def)
  next
    case False
    then have "nonblank l" by (simp add: nonblank_def)
    with Cons.prems have d: "decodes loads l" and r: "list_all (decodes loads) (filter nonblank ls)"
      by simp_all
    show ?thesis
    proof (cases "loads l")
      case (Inl e)
      with d have "e = JSONDecodeError" by (simp add: decodes_def)
      with Inl False Cons.IH [OF r, of acc] show ?thesis
        by (simp add: line_values_def nonblank_def)
    next
      case (Inr v)
      with False Cons.IH [OF r, of "acc @ [v]"] show ?thesis
        by (simp add: line_values_def nonblank_def)
    qed
  qed
qed

lemma vegeta_items_total:
  "list_all (\<lambda>item. \<not> isl (vegeta_record U fn item)) items \<Longrightarrow>
   \<exists>new. vegeta_items U fn items acc = Inr (acc @ new) \<and>
     list_all2 (\<lambda>item row. vegeta_record U fn item = Inr row) items new"
proof (induction items arbitrary: acc)
  case Nil
  then show ?case by simp
next
  case (Cons item items)
  from Cons.prems obtain x where x: "vegeta_record U fn item = Inr x"
    by (cases "vegeta_record U fn item") auto
  from Cons.prems have "list_all (\<lambda>item. \<not> isl (vegeta_record U fn item)) items" by simp
  from Cons.IH [OF this, of "acc @ [x]"] obtain new where
    "vegeta_items U fn items (acc @ [x]) = Inr ((acc @ [x]) @ new)"
    "list_all2 (\<lambda>item row. vegeta_record U fn item = Inr row) items new" by blast
  with x show ?case by (intro exI [of _ "x # new"]) simp
qed

text \<open>
  Claim C7, as amended. A file that is one JSON object gives that object, a file that is
  a JSON array gives its elements. When the whole text is not a JSON document, and
  \<open>json.loads\<close> on each line that is not blank either returns or raises
  \<open>JSONDecodeError\<close>, the lines on which it raises are left out, nothing being kept of
  them, and the values of the other lines are the data, in their order. In each case,
  when every item of the data gives a record, the parse returns these records, one for
  each item in order.
\<close>

theorem vegeta_encodings:
  "(loads content = Inr (JObj d) \<longrightarrow> vegeta_data loads content = Inr [JObj d]) \<and>
   (loads content = Inr (JArr xs) \<longrightarrow> vegeta_data loads content = Inr xs) \<and>
   (loads content = Inl JSONDecodeError \<and>
    list_all (decodes loads) (filter nonblank (split [10] (strip content))) \<longrightarrow>
      vegeta_data loads content = Inr (line_values loads (split [10] (strip content)))) \<and>
   (vegeta_data loads content = Inr items \<and>
    list_all (\<lambda>item. \<not> isl (vegeta_record U filename item)) items \<longrightarrow>
      (\<exists>rows. parse_vegeta_content U loads filename content = Inr rows \<and>
         list_all2 (\<lambda>item row. vegeta_record U filename item = Inr row) items rows))"
proof (intro conjI impI)
  assume "loads content = Inr (JObj d)"
  then show "vegeta_data loads content = Inr [JObj d]" by (simp add: vegeta_data_def)
next
  assume "loads content = Inr (JArr xs)"
  then show "vegeta_data loads content = Inr xs" by (simp add: vegeta_data_def)
next
  assume "loads content = Inl JSONDecodeError \<and>
    list_all (decodes loads) (filter nonblank (split [10] (strip content)))"
  then show "vegeta_data loads content = Inr (line_values loads (split [10] (strip content)))"
    using vegeta_lines_values [of loads "split [10] (strip content)" "[]"]
    by (simp add: vegeta_data_def)
next
  assume a: "vegeta_data loads content = Inr items \<and>
    list_all (\<lambda>item. \<not> isl (vegeta_record U filename item)) items"
  with vegeta_items_total [of U filename items "[]"]
  show "\<exists>rows. parse_vegeta_content U loads filename content = Inr rows \<and>
         list_all2 (\<lambda>item row. vegeta_record U filename item = Inr row) items rows"
    by (simp add: parse_vegeta_content_def)
qed

lemma ndjson_broken_lines:
  "split [10] (strip ndjson_broken) = [payload_095, asc ''{broken'', asc ''{}'']"
  by (simp add: ndjson_broken_def payload_095_def quoted_def strip_def is_space_def text_ev)

lemma example_nonblank:
  "nonblank payload_095" "nonblank (asc ''{broken'')" "nonblank (asc ''{}'')"
  by (simp_all add: nonblank_def payload_095_def quoted_def strip_def is_space_def asc_def)

text \<open>
  The single object \<^verbatim>\<open>{}\<close>, and three lines of which the second is not JSON: the
  two other lines give their rows.
\<close>

theorem vegeta_encodings_witness:
  "loads_example (asc ''{}'') = Inr (JObj []) \<and>
   vegeta_data loads_example (asc ''{}'') = Inr [JObj []] \<and>
   loads_example ndjson_broken = Inl JSONDecodeError \<and>
   list_all (decodes loads_example) (filter nonblank (split [10] (strip ndjson_broken))) \<and>
   vegeta_data loads_example ndjson_broken =
     Inr [JObj [(asc ''success'', JFloat (round_q 95 100))], JObj []] \<and>
   list_all (\<lambda>item. \<not> isl (vegeta_record example_unicode (asc ''load.json'') item))
     [JObj [(asc ''success'', JFloat (round_q 95 100))], JObj []] \<and>
   parse_vegeta_content example_unicode loads_example (asc ''load.json'') ndjson_broken =
     Inr [empty_row (NF (Fin 5629499534213125 (- 50))), empty_row (NI 100)]"
proof -
  have v: "line_values loads_example (split [10] (strip ndjson_broken)) =
      [JObj [(asc ''success'', JFloat (round_q 95 100))], JObj []]"
    by (simp add: line_values_def ndjson_broken_lines example_nonblank example_loads)
  have d: "list_all (decodes loads_example) (filter nonblank (split [10] (strip ndjson_broken)))"
    by (simp add: ndjson_broken_lines example_nonblank example_loads decodes_def)
  note one = vegeta_encodings [where loads = loads_example and content = "asc ''{}''"
      and d = "[]"]
  note lines = vegeta_encodings [where loads = loads_example and content = ndjson_broken
      and U = example_unicode and filename = "asc ''load.json''"
      and items = "[JObj [(asc ''success'', JFloat (round_q 95 100))], JObj []]"]
  from one have o: "vegeta_data loads_example (asc ''{}'') = Inr [JObj []]"
    by (simp add: example_loads)
  from lines d have l: "vegeta_data loads_example ndjson_broken =
      Inr [JObj [(asc ''success'', JFloat (round_q 95 100))], JObj []]"
    by (simp add: example_loads v)
  have r: "list_all (\<lambda>item. \<not> isl (vegeta_record example_unicode (asc ''load.json'') item))
     [JObj [(asc ''success'', JFloat (round_q 95 100))], JObj []]"
    by (simp add: example_records)
  from lines l r have "\<exists>rows.
      parse_vegeta_content example_unicode loads_example (asc ''load.json'') ndjson_broken =
        Inr rows \<and>
      list_all2 (\<lambda>item row. vegeta_record example_unicode (asc ''load.json'') item = Inr row)
        [JObj [(asc ''success'', JFloat (round_q 95 100))], JObj []] rows"
    by blast
  then have p: "parse_vegeta_content example_unicode loads_example (asc ''load.json'')
      ndjson_broken = Inr [empty_row (NF (Fin 5629499534213125 (- 50))), empty_row (NI 100)]"
    by (auto simp: list_all2_Cons1 example_records)
  from o l r p d show ?thesis by (simp add: example_loads)
qed

lemma strip_self:
  assumes "s \<noteq> []" and "\<not> is_space (hd s)" and "\<not> is_space (last s)"
  shows "strip s = s"
proof -
  from assms have "dropWhile is_space s = s"
    by (simp add: dropWhile_eq_self_iff)
  moreover from assms have "dropWhile is_space (rev s) = rev s"
    by (simp add: dropWhile_eq_self_iff hd_rev)
  ultimately show ?thesis by (simp add: strip_def)
qed

lemma ones_4300_last: "ones_4300 \<noteq> []" "last ones_4300 = 49"
  by (simp_all add: ones_4300_def)

lemma ndjson_long_lines: "split [10] (strip ndjson_long) = [asc ''{}'', 49 # ones_4300]"
proof -
  have "strip ndjson_long = ndjson_long"
    by (rule strip_self) (simp_all add: ndjson_long_def ones_4300_last is_space_def asc_def)
  moreover have "split [10] (asc ''{}'' @ 10 # 49 # ones_4300) = [asc ''{}'', 49 # ones_4300]"
    by (rule split_one_sep) (simp_all add: ones_4300 asc_def)
  ultimately show ?thesis by (simp add: ndjson_long_def)
qed

text \<open>
  A line on which \<open>json.loads\<close> raises an error that is not a \<open>JSONDecodeError\<close>:
  the number of 4301 digits, after a line \<^verbatim>\<open>{}\<close>. The error is not caught and the
  parse raises \<open>ValueError\<close>.
\<close>

theorem vegeta_long_integer_counterexample:
  "parse_vegeta_content example_unicode loads_example (asc ''load.json'') ndjson_long =
     Inl ValueError"
proof -
  have w: "loads_example ndjson_long = Inl JSONDecodeError"
    by (simp add: loads_example_def ndjson_long_def payload_095_def quoted_def asc_def)
  have a: "strip (asc ''{}'') \<noteq> []"
    by (simp add: strip_def is_space_def asc_def)
  have "strip (49 # ones_4300) = 49 # ones_4300"
    by (rule strip_self) (simp_all add: ones_4300_last is_space_def)
  then have b: "strip (49 # ones_4300) \<noteq> []" by simp
  have l: "loads_example (49 # ones_4300) = Inl ValueError"
    by (simp add: loads_example_def payload_095_def quoted_def asc_def)
  show ?thesis
    by (simp add: parse_vegeta_content_def vegeta_data_def w ndjson_long_lines a b l
        example_loads)
qed

section \<open>The loaders\<close>

lemma rights_simps [simp]:
  "rights [] = []" "rights (Inl e # xs) = rights xs" "rights (Inr v # xs) = v # rights xs"
  by (simp_all add: rights_def)

lemma hitratio_files_frames:
  "hitratio_files U td fs self pattern names acc =
     acc @ rights (map (hitratio_frame U td fs self) (filter (hitratio_selected pattern) names))"
proof (induction names arbitrary: acc)
  case Nil
  then show ?case by simp
next
  case (Cons f names)
  then show ?case
    by (cases pattern; cases "hitratio_frame U td fs self f")
      (simp_all add: hitratio_selected_def filtered_def)
qed

lemma concurrency_files_frames:
  "concurrency_files U loads td fs self pattern names acc =
     acc @ rights (map (concurrency_frame U loads td fs self)
                    (filter (concurrency_selected pattern) names))"
proof (induction names arbitrary: acc)
  case Nil
  then show ?case by simp
next
  case (Cons f names)
  then show ?case
    by (cases pattern; cases "concurrency_frame U loads td fs self f")
      (simp_all add: concurrency_selected_def filtered_def)
qed

lemma benchmark_files_frames:
  "list_all (\<lambda>f. \<not> isl (benchmark_frame U td fs self f))
     (filter (benchmark_selected pattern) names) \<Longrightarrow>
   benchmark_files U td fs self pattern names acc =
     Inr (acc @ rights (map (benchmark_frame U td fs self)
                         (filter (benchmark_selected pattern) names)))"
proof (induction names arbitrary: acc)
  case Nil
  then show ?case by simp
next
  case (Cons f names)
  then show ?case
    by (cases pattern; cases "benchmark_frame U td fs self f")
      (auto simp: benchmark_selected_def filtered_def split: if_splits)
qed

lemma rights_Nil_iff: "(rights xs = []) = list_all isl xs"
proof (induction xs)
  case Nil
  then show ?case by simp
next
  case (Cons x xs)
  then show ?case by (cases x) simp_all
qed

lemma loaded_frames_isl: "isl (loaded_frames frames) = (frames = [])"
  by (simp add: loaded_frames_def)

text \<open>
  Claim C3, as amended. \<open>load_test_results\<close> and \<open>load_concurrency_results\<close> raise
  (a \<open>ValueError\<close>) exactly when no selected file of the directory is loaded, that is
  parsed and dated without an error; whatever a file raises is caught and the other files
  are still processed, and the result is the rows of the loaded files in the order of the
  listing. A file that is loaded with no record at all counts as loaded, so that the
  result can be empty, without an error. \<open>load_benchmark_results\<close> does the same in a
  directory none of whose selected files raises.
\<close>

theorem loaders_raise_iff_no_file_loaded:
  "snd (load_test_results U td fs names hself pattern) =
     loaded_frames (rights (map (hitratio_frame U td fs hself)
                             (filter (hitratio_selected pattern) names))) \<and>
   isl (snd (load_test_results U td fs names hself pattern)) =
     list_all (\<lambda>f. isl (hitratio_frame U td fs hself f))
       (filter (hitratio_selected pattern) names) \<and>
   snd (load_concurrency_results U loads td fs names cself pattern) =
     loaded_frames (rights (map (concurrency_frame U loads td fs cself)
                             (filter (concurrency_selected pattern) names))) \<and>
   isl (snd (load_concurrency_results U loads td fs names cself pattern)) =
     list_all (\<lambda>f. isl (concurrency_frame U loads td fs cself f))
       (filter (concurrency_selected pattern) names) \<and>
   (list_all (\<lambda>f. \<not> isl (benchmark_frame U td fs bself f))
      (filter (benchmark_selected pattern) names) \<longrightarrow>
    snd (load_benchmark_results U td fs names bself pattern) =
      loaded_frames (rights (map (benchmark_frame U td fs bself)
                              (filter (benchmark_selected pattern) names))) \<and>
    isl (snd (load_benchmark_results U td fs names bself pattern)) =
      (filter (benchmark_selected pattern) names = []))"
proof -
  have h: "snd (load_test_results U td fs names hself pattern) =
     loaded_frames (rights (map (hitratio_frame U td fs hself)
                             (filter (hitratio_selected pattern) names)))"
    by (simp add: load_test_results_def hitratio_files_frames loaded_frames_def Let_def)
  have c: "snd (load_concurrency_results U loads td fs names cself pattern) =
     loaded_frames (rights (map (concurrency_frame U loads td fs cself)
                             (filter (concurrency_selected pattern) names)))"
    by (simp add: load_concurrency_results_def concurrency_files_frames loaded_frames_def
        Let_def)
  have b: "snd (load_benchmark_results U td fs names bself pattern) =
      loaded_frames (rights (map (benchmark_frame U td fs bself)
                              (filter (benchmark_selected pattern) names)))"
    if "list_all (\<lambda>f. \<not> isl (benchmark_frame U td fs bself f))
      (filter (benchmark_selected pattern) names)"
    using that
    by (simp add: load_benchmark_results_def benchmark_files_frames loaded_frames_def)
  have n: "(rights (map g xs) = []) = (xs = [])" if "list_all (\<lambda>f. \<not> isl (g f)) xs"
    for g :: "str \<Rightarrow> error + 'z" and xs
    using that by (cases xs) (auto simp: rights_Nil_iff)
  have hi: "isl (loaded_frames (rights (map g xs))) = list_all (\<lambda>f. isl (g f)) xs"
    for g :: "str \<Rightarrow> error + 'z list" and xs
    by (simp add: loaded_frames_isl rights_Nil_iff list_all_iff)
  have bi: "isl (loaded_frames (rights (map g xs))) = (xs = [])"
    if "list_all (\<lambda>f. \<not> isl (g f)) xs" for g :: "str \<Rightarrow> error + 'z list" and xs
    using that by (simp add: loaded_frames_isl n)
  show ?thesis
  proof (intro conjI impI)
    assume a: "list_all (\<lambda>f. \<not> isl (benchmark_frame U td fs bself f))
      (filter (benchmark_selected pattern) names)"
    from b [OF a] show "snd (load_benchmark_results U td fs names bself pattern) =
      loaded_frames (rights (map (benchmark_frame U td fs bself)
                              (filter (benchmark_selected pattern) names)))" .
    from b [OF a] bi [OF a]
    show "isl (snd (load_benchmark_results U td fs names bself pattern)) =
      (filter (benchmark_selected pattern) names = [])" by simp
  qed (simp_all add: h c hi)
qed

lemma example_paths:
  "path_join (input_dir analyzer_example) (asc ''broken.txt'') = asc ''in/broken.txt''"
  "path_join (input_dir analyzer_example) (asc ''hitratio_20240101.log'') =
     asc ''in/hitratio_20240101.log''"
  "path_join (input_dir analyzer_example) (asc ''hitratio_20240102.txt'') =
     asc ''in/hitratio_20240102.txt''"
  by (simp_all add: path_join_def analyzer_example_def endswith_def suffix_to_prefix asc_def)

lemma example_files:
  "files_example (asc ''in/broken.txt'') = Inl OSError"
  "files_example (asc ''in/hitratio_20240101.log'') = Inr transcript_one"
  "files_example (asc ''in/hitratio_20240102.txt'') = Inr (asc ''no statistics here'')"
  by (simp_all add: files_example_def asc_def)

lemma example_dates:
  "hitratio_date example_unicode (asc ''hitratio_20240101.log'') = asc ''20240101''"
  "hitratio_date example_unicode (asc ''hitratio_20240102.txt'') = asc ''20240102''"
  "benchmark_metadata example_unicode (asc ''hitratio_20240102.txt'') =
     (asc ''hitratio'', asc ''20240102'')"
  "dates_example (asc ''20240101'') = Some (2024, 1, 1)"
  "dates_example (asc ''20240102'') = Some (2024, 1, 2)"
  by (simp_all add: hitratio_date_def hitratio_file_pattern_def benchmark_metadata_def
      benchmark_file_pattern_def group_def dates_example_def example_unicode_def
      text_ev match_ev del: matcher_simps_off)

lemma no_statistics:
  "parse_test_content example_unicode (asc ''no statistics here'') = Inr []"
  "parse_benchmark_content example_unicode (asc ''no statistics here'') = Inr []"
  by (simp_all add: parse_test_content_def hitratio_pattern_def parse_benchmark_content_def
      benchmark_pattern_def label_ev example_unicode_def text_ev match_ev
      del: matcher_simps_off)

lemma example_frames:
  "hitratio_frame example_unicode dates_example files_example analyzer_example
     (asc ''broken.txt'') = Inl OSError"
  "hitratio_frame example_unicode dates_example files_example analyzer_example
     (asc ''hitratio_20240101.log'') =
     Inr [\<lparr>parsed =
            \<lparr>test_name = Some (asc ''ZipfLow_LRU_Size5000''), cache_size = Some 5000,
             distribution = Some (asc ''zipf-1.07''), policy = Some (asc ''lru''),
             total_operations = 1000, hits = 800, misses = 200, hit_ratio = Fin 5 4,
             evictions = 50, eviction_ratio = Fin 5 0,
             duration_ms = F (Fin 4341751515761869 (- 45))\<rparr>,
           date = (2024, 1, 1), source_file = asc ''hitratio_20240101.log''\<rparr>]"
  "hitratio_frame example_unicode dates_example files_example analyzer_example
     (asc ''hitratio_20240102.txt'') = Inr []"
  "benchmark_frame example_unicode dates_example files_example analyzer_example
     (asc ''hitratio_20240102.txt'') = Inr []"
  by (simp_all add: hitratio_frame_def benchmark_frame_def parse_test_output_def
      parse_benchmark_file_def example_paths example_files example_dates no_statistics
      transcript_one_parsed)

lemma example_selected:
  "filter (hitratio_selected None) names_example =
     [asc ''broken.txt'', asc ''hitratio_20240101.log'', asc ''hitratio_20240102.txt'']"
  "hitratio_selected None (asc ''hitratio_20240102.txt'')"
  "benchmark_selected None (asc ''hitratio_20240102.txt'')"
  by (simp_all add: names_example_def hitratio_selected_def benchmark_selected_def
      filtered_def endswith_def suffix_to_prefix asc_def)

text \<open>
  The example directory: the unreadable file is passed over and the result is the row of
  the one block. For the benchmark loader, a directory with the one file that has no
  benchmark line: it loads, with no row.
\<close>

theorem loaders_raise_iff_no_file_loaded_witness:
  "list_all (\<lambda>f. \<not> isl (benchmark_frame example_unicode dates_example files_example
                          (analyzer_example :: (brow, nat \<times> nat \<times> nat) bloaded analyzer) f))
     (filter (benchmark_selected None) [asc ''hitratio_20240102.txt'']) \<and>
   snd (load_benchmark_results example_unicode dates_example files_example
          [asc ''hitratio_20240102.txt''] analyzer_example None) = Inr [] \<and>
   snd (load_test_results example_unicode dates_example files_example names_example
          analyzer_example None) =
     Inr [\<lparr>parsed =
            \<lparr>test_name = Some (asc ''ZipfLow_LRU_Size5000''), cache_size = Some 5000,
             distribution = Some (asc ''zipf-1.07''), policy = Some (asc ''lru''),
             total_operations = 1000, hits = 800, misses = 200, hit_ratio = Fin 5 4,
             evictions = 50, eviction_ratio = Fin 5 0,
             duration_ms = F (Fin 4341751515761869 (- 45))\<rparr>,
           date = (2024, 1, 1), source_file = asc ''hitratio_20240101.log''\<rparr>]"
proof -
  note b = loaders_raise_iff_no_file_loaded [where U = example_unicode and td = dates_example
      and fs = files_example and names = "[asc ''hitratio_20240102.txt'']"
      and bself = "analyzer_example :: (brow, nat \<times> nat \<times> nat) bloaded analyzer"
      and pattern = None]
  note h = loaders_raise_iff_no_file_loaded [where U = example_unicode and td = dates_example
      and fs = files_example and names = names_example
      and hself = "analyzer_example :: (hrow, nat \<times> nat \<times> nat) loaded analyzer"
      and pattern = None]
  have f: "list_all (\<lambda>f. \<not> isl (benchmark_frame example_unicode dates_example files_example
                          (analyzer_example :: (brow, nat \<times> nat \<times> nat) bloaded analyzer) f))
     (filter (benchmark_selected None) [asc ''hitratio_20240102.txt''])"
    by (simp add: example_selected example_frames)
  from b [THEN conjunct2, THEN conjunct2, THEN conjunct2, THEN conjunct2, THEN mp, OF f,
      THEN conjunct1]
  have lb: "snd (load_benchmark_results example_unicode dates_example files_example
          [asc ''hitratio_20240102.txt'']
          (analyzer_example :: (brow, nat \<times> nat \<times> nat) bloaded analyzer) None) = Inr []"
    by (simp add: example_selected example_frames loaded_frames_def)
  from h [THEN conjunct1]
  have lh: "snd (load_test_results example_unicode dates_example files_example names_example
          (analyzer_example :: (hrow, nat \<times> nat \<times> nat) loaded analyzer) None) =
     Inr [\<lparr>parsed =
            \<lparr>test_name = Some (asc ''ZipfLow_LRU_Size5000''), cache_size = Some 5000,
             distribution = Some (asc ''zipf-1.07''), policy = Some (asc ''lru''),
             total_operations = 1000, hits = 800, misses = 200, hit_ratio = Fin 5 4,
             evictions = 50, eviction_ratio = Fin 5 0,
             duration_ms = F (Fin 4341751515761869 (- 45))\<rparr>,
           date = (2024, 1, 1), source_file = asc ''hitratio_20240101.log''\<rparr>]"
    by (simp add: example_selected example_frames loaded_frames_def)
  from f lb lh show ?thesis by blast
qed

text \<open>
  A directory whose only file has no statistics block yields no usable record, and
  \<open>load_test_results\<close> raises nothing: it returns the empty data set and keeps it as
  its results.
\<close>

theorem empty_file_loads_counterexample:
  "load_test_results example_unicode dates_example files_example
     [asc ''hitratio_20240102.txt''] analyzer_example None =
   (analyzer_example\<lparr>results := Some []\<rparr>, Inr [])"
proof -
  have e: "endswith (asc ''hitratio_20240102.txt'') (asc ''.txt'')"
    by (simp add: endswith_def suffix_to_prefix asc_def)
  show ?thesis
    by (simp add: load_test_results_def e example_frames)
qed

section \<open>The table of top functions\<close>















section \<open>Determinism\<close>








end
